theory Spec2Isabelle
  imports Main "HOL-Library.Char_ord" "HOL-Library.List_Lexorder"
begin

section \<open>Python strings\<close>

text \<open>
  A Python \<open>str\<close> is modelled as a \<open>string\<close> of ASCII characters. The string
  methods the two tools call are translated for that alphabet: \<open>str.lower\<close> maps
  \<open>A..Z\<close> to \<open>a..z\<close>, \<open>str.strip\<close> removes the ASCII white space Python
  removes, \<open>str.split(",")\<close> cuts at every comma and always returns at least one token.
\<close>

definition lower_char :: "char \<Rightarrow> char" where
  "lower_char c =
     (case map_of (zip ''ABCDEFGHIJKLMNOPQRSTUVWXYZ'' ''abcdefghijklmnopqrstuvwxyz'') c of
        Some d \<Rightarrow> d
      | None \<Rightarrow> c)"

definition lower :: "string \<Rightarrow> string" where
  "lower s = map lower_char s"

definition is_space :: "char \<Rightarrow> bool" where
  "is_space c = (c \<in> set [CHR 0x09, CHR 0x0A, CHR 0x0B, CHR 0x0C, CHR 0x0D,
                           CHR 0x1C, CHR 0x1D, CHR 0x1E, CHR 0x1F, CHR 0x20])"

definition strip :: "string \<Rightarrow> string" where
  "strip s = rev (dropWhile is_space (rev (dropWhile is_space s)))"

fun split_on :: "char \<Rightarrow> string \<Rightarrow> string list" where
  "split_on sep [] = [[]]"
| "split_on sep (c # cs) =
     (if c = sep then [] # split_on sep cs
      else (case split_on sep cs of
              [] \<Rightarrow> [[c]]
            | t # ts \<Rightarrow> (c # t) # ts))"

definition endswith :: "string \<Rightarrow> string \<Rightarrow> bool" where
  "endswith s suf = (length suf \<le> length s \<and> drop (length s - length suf) s = suf)"

section \<open>Exceptions and the file system seen by the tools\<close>

text \<open>
  \<open>KeyboardInterrupt\<close> is the one exception of the model that is not an instance of
  Python's \<open>Exception\<close> class; \<open>Exception m\<close> stands for an instance of any
  subclass of \<open>Exception\<close>, with \<open>m\<close> what \<open>str(e)\<close> prints.
\<close>

datatype py_exn = KeyboardInterrupt | Exception string

datatype entry_kind = RegularFile | SubDirectory

text \<open>
  What a path is on disk when a tool lists it. A directory holds its entries in the
  order the operating system enumerates them, which is arbitrary.
\<close>

datatype dir_state =
    Missing
  | NotADirectory
  | Directory "(string \<times> entry_kind) list"

text \<open>\<open>os.listdir\<close>: every entry's name, files and subdirectories alike.\<close>

definition os_listdir :: "dir_state \<Rightarrow> py_exn + string list" where
  "os_listdir d =
     (case d of
        Missing \<Rightarrow> Inl (Exception ''FileNotFoundError'')
      | NotADirectory \<Rightarrow> Inl (Exception ''NotADirectoryError'')
      | Directory es \<Rightarrow> Inr (map fst es))"

text \<open>
  \<open>Path.glob("*.pptx")\<close>: pathlib yields nothing for a path that is not a directory
  and raises nothing. The tool starts only where \<open>comtypes\<close> can be imported, on
  Windows, where pathlib matches a pattern and compares paths on lower-cased names.
\<close>

definition glob_pptx :: "dir_state \<Rightarrow> string list" where
  "glob_pptx d =
     (case d of
        Directory es \<Rightarrow> filter (\<lambda>n. endswith (lower n) ''.pptx'') (map fst es)
      | _ \<Rightarrow> [])"

section \<open>File listers\<close>

text \<open>
  \<open>get_ppt_files\<close> of the presentation tool: \<open>sorted(list(path.glob("*.pptx")))\<close>.
  All the paths it returns have the same parent, the directory that was globbed, so the
  model returns their names; \<open>main\<close> pairs each name with the directory.
\<close>

definition get_ppt_files :: "dir_state \<Rightarrow> string list" where
  "get_ppt_files d = sort_key lower (glob_pptx d)"

text \<open>
  The Markdown tool's custom extension list (\<open>main\<close>, choice 4):
  \<open>[ext.strip() for ext in extensions_input.split(",")]\<close>.
\<close>

definition custom_extensions :: "string \<Rightarrow> string list" where
  "custom_extensions extensions_input = map strip (split_on CHR '','' extensions_input)"

text \<open>
  The inner loop of the Markdown tool's scan: the first extension that is a suffix of
  the lower-cased name keeps the file (\<open>append\<close>, then \<open>break\<close>).
\<close>

fun any_suffix :: "string \<Rightarrow> string list \<Rightarrow> bool" where
  "any_suffix file_lower [] = False"
| "any_suffix file_lower (ext # exts) =
     (if endswith file_lower ext then True else any_suffix file_lower exts)"

text \<open>
  The outer loop: \<open>extensions = [ext.lower() for ext in selected_format["ext"]]\<close>, then
  every name of the listing, in the listing's order.
\<close>

fun scan_names :: "string list \<Rightarrow> string list \<Rightarrow> string list" where
  "scan_names extensions [] = []"
| "scan_names extensions (file # files) =
     (if any_suffix (lower file) extensions then file # scan_names extensions files
      else scan_names extensions files)"

definition target_files :: "string list \<Rightarrow> string list \<Rightarrow> string list" where
  "target_files ext names = scan_names (map lower ext) names"


section \<open>Operator input\<close>

text \<open>
  What one call of a prompt of the \<open>rich\<close> library gives back: the value it returns, or
  the exception it raises when the operator presses Ctrl-C (\<open>KeyboardInterrupt\<close>) or the
  input has ended (\<open>EOFError\<close>). For a prompt called with \<open>default=\<close> the value is
  optional: \<open>None\<close> is the operator pressing return on an empty line.
\<close>

datatype 'a prompt_result = Answer 'a | CtrlC | EndOfInput

definition ask :: "'a prompt_result \<Rightarrow> py_exn + 'a" where
  "ask r =
     (case r of
        Answer v \<Rightarrow> Inr v
      | CtrlC \<Rightarrow> Inl KeyboardInterrupt
      | EndOfInput \<Rightarrow> Inl (Exception ''EOFError''))"

definition ask_default :: "'a \<Rightarrow> 'a option prompt_result \<Rightarrow> py_exn + 'a" where
  "ask_default d r =
     (case ask r of
        Inl e \<Rightarrow> Inl e
      | Inr None \<Rightarrow> Inr d
      | Inr (Some v) \<Rightarrow> Inr v)"

text \<open>How a call of \<open>main\<close> ends, and how the interpreter ends the process.\<close>

datatype outcome = Returned | Raised py_exn

datatype exit_status = ExitSuccess | ExitFailure

text \<open>Events of a later stage follow the events already emitted.\<close>

fun prepend :: "'e list \<Rightarrow> 'e list \<times> 'r \<Rightarrow> 'e list \<times> 'r" where
  "prepend ev (ev', r) = (ev @ ev', r)"

section \<open>Paths of the Markdown tool (\<open>os.path\<close>, POSIX flavour)\<close>

text \<open>\<open>p[:i]\<close> and \<open>p[i:]\<close> for \<open>i = p.rfind('/') + 1\<close>.\<close>

definition path_head :: "string \<Rightarrow> string" where
  "path_head p = rev (dropWhile (\<lambda>c. c \<noteq> CHR ''/'') (rev p))"

definition basename :: "string \<Rightarrow> string" where
  "basename p = rev (takeWhile (\<lambda>c. c \<noteq> CHR ''/'') (rev p))"

definition rstrip_slash :: "string \<Rightarrow> string" where
  "rstrip_slash h = rev (dropWhile (\<lambda>c. c = CHR ''/'') (rev h))"

definition dirname :: "string \<Rightarrow> string" where
  "dirname p =
     (let head = path_head p
      in if head \<noteq> [] \<and> head \<noteq> replicate (length head) (CHR ''/'')
         then rstrip_slash head else head)"

definition path_join :: "string \<Rightarrow> string \<Rightarrow> string" where
  "path_join a b =
     (if take 1 b = ''/'' then b
      else if a = [] \<or> endswith a ''/'' then a @ b
      else a @ ''/'' @ b)"

text \<open>
  \<open>os.path.splitext\<close>: the extension starts at the last dot of the last component,
  unless only dots come before it there.
\<close>

definition splitext :: "string \<Rightarrow> string \<times> string" where
  "splitext p =
     (let base = basename p;
          ext = rev (takeWhile (\<lambda>c. c \<noteq> CHR ''.'') (rev base));
          root = take (length base - length ext - 1) base
      in if CHR ''.'' \<in> set base \<and> list_ex (\<lambda>c. c \<noteq> CHR ''.'') root
         then (take (length p - length ext - 1) p, CHR ''.'' # ext)
         else (p, []))"

section \<open>The Markdown tool\<close>

text \<open>
  How \<open>subprocess.run([...], check=True)\<close> ends: the command exits with a status,
  cannot be launched, or the operator interrupts the wait. The events of a run of the
  Markdown tool are what it prints and the calls it makes on the outside world, in order;
  prompt texts and the status spinner are not part of them.
\<close>

datatype proc_outcome =
    Exited int
  | LaunchFailed string
  | Interrupted

datatype fmt_name = NamePdf | NameWord | NamePowerPoint | NameCustom

datatype md_msg =
    Banner
  | FormatHeader
  | FormatOption string fmt_name
  | Converting string string
  | Converted string
  | ConvertFailed string proc_outcome
  | NoneFound fmt_name
  | Found nat fmt_name
  | Finished nat nat
  | Cancelled

datatype md_event =
    Print md_msg
  | Makedirs string
  | Listdir string
  | RunProcess "string list"

text \<open>
  \<open>convert_file_to_md(file_path, output_dir=None, file_type=None)\<close>. A non-zero exit
  status (\<open>CalledProcessError\<close>) and a failure to launch (\<open>OSError\<close>) are instances of
  \<open>Exception\<close> and are caught; a keyboard interrupt is not.
\<close>

definition output_path_of :: "string \<Rightarrow> string option \<Rightarrow> string" where
  "output_path_of file_path output_dir =
     (let out = (case output_dir of None \<Rightarrow> dirname file_path | Some d \<Rightarrow> d);
          base_name = basename file_path;
          file_name = fst (splitext base_name)
      in path_join out (file_name @ ''.md''))"

definition convert_file_to_md ::
  "(string list \<Rightarrow> proc_outcome) \<Rightarrow> string \<Rightarrow> string option \<Rightarrow> md_event list \<times> (py_exn + bool)" where
  "convert_file_to_md run file_path output_dir =
     (let output_path = output_path_of file_path output_dir;
          cmd = [''markitdown'', file_path, ''-o'', output_path];
          started = [Print (Converting file_path output_path), RunProcess cmd]
      in case run cmd of
           Exited n \<Rightarrow>
             if n = 0 then (started @ [Print (Converted output_path)], Inr True)
             else (started @ [Print (ConvertFailed file_path (Exited n))], Inr False)
         | LaunchFailed m \<Rightarrow> (started @ [Print (ConvertFailed file_path (LaunchFailed m))], Inr False)
         | Interrupted \<Rightarrow> (started, Inl KeyboardInterrupt))"

text \<open>
  The batch loop of \<open>main\<close>. \<open>run i\<close> is what the external command does at the
  \<open>i\<close>-th call of the run.
\<close>

fun convert_targets ::
  "(nat \<Rightarrow> string list \<Rightarrow> proc_outcome) \<Rightarrow> nat \<Rightarrow> string \<Rightarrow> string \<Rightarrow> string list \<Rightarrow> nat
     \<Rightarrow> md_event list \<times> (py_exn + nat)" where
  "convert_targets run i input_dir output_dir [] success_count = ([], Inr success_count)"
| "convert_targets run i input_dir output_dir (file # files) success_count =
     (case convert_file_to_md (run i) (path_join input_dir file) (Some output_dir) of
        (ev, Inl e) \<Rightarrow> (ev, Inl e)
      | (ev, Inr ok) \<Rightarrow>
          prepend ev
            (convert_targets run (Suc i) input_dir output_dir files
               (if ok then success_count + 1 else success_count)))"

record md_format =
  fmt_label :: fmt_name
  fmt_ext :: "string list"

definition format_choices :: "string \<rightharpoonup> md_format" where
  "format_choices =
     [''1'' \<mapsto> \<lparr>fmt_label = NamePdf, fmt_ext = [''.pdf'']\<rparr>,
      ''2'' \<mapsto> \<lparr>fmt_label = NameWord, fmt_ext = [''.doc'', ''.docx'']\<rparr>,
      ''3'' \<mapsto> \<lparr>fmt_label = NamePowerPoint, fmt_ext = [''.ppt'', ''.pptx'']\<rparr>,
      ''4'' \<mapsto> \<lparr>fmt_label = NameCustom, fmt_ext = []\<rparr>]"

definition format_menu :: "md_event list" where
  "format_menu =
     [Print FormatHeader, Print (FormatOption ''1'' NamePdf), Print (FormatOption ''2'' NameWord),
      Print (FormatOption ''3'' NamePowerPoint), Print (FormatOption ''4'' NameCustom)]"

text \<open>
  The world of one run of the Markdown tool: the directory of the script (the default
  input directory), how \<open>os.makedirs(output_dir, exist_ok=True)\<close> ends, what each path
  is on disk when it is listed, and the external command.
\<close>

record md_env =
  script_dir :: string
  makedirs_result :: "string \<Rightarrow> py_exn option"
  md_path_state :: "string \<Rightarrow> dir_state"
  md_run :: "nat \<Rightarrow> string list \<Rightarrow> proc_outcome"

record md_script =
  input_dir_answer :: "string option prompt_result"
  choice_answer :: "string option prompt_result"
  extensions_answer :: "string prompt_result"
  output_dir_answer :: "string option prompt_result"
  start_answer :: "bool option prompt_result"

text \<open>\<open>main\<close> from the scan on: lines 66 to 95.\<close>

definition md_scan_and_convert ::
  "md_env \<Rightarrow> md_script \<Rightarrow> string \<Rightarrow> md_format \<Rightarrow> string \<Rightarrow> md_event list \<times> outcome" where
  "md_scan_and_convert env s input_dir selected_format output_dir =
     prepend [Listdir input_dir]
       (case os_listdir (md_path_state env input_dir) of
          Inl e \<Rightarrow> ([], Raised e)
        | Inr names \<Rightarrow>
            (let files = target_files (fmt_ext selected_format) names
             in if files = [] then ([Print (NoneFound (fmt_label selected_format))], Returned)
                else prepend [Print (Found (length files) (fmt_label selected_format))]
                  (case ask_default True (start_answer s) of
                     Inl e \<Rightarrow> ([], Raised e)
                   | Inr False \<Rightarrow> ([Print Cancelled], Returned)
                   | Inr True \<Rightarrow>
                       (case convert_targets (md_run env) 0 input_dir output_dir files 0 of
                          (ev, Inl e) \<Rightarrow> (ev, Raised e)
                        | (ev, Inr success_count) \<Rightarrow>
                            (ev @ [Print (Finished success_count (length files))], Returned)))))"

text \<open>\<open>main\<close> from the output prompt on: lines 62 to 64, then the scan.\<close>

definition md_prepare_output ::
  "md_env \<Rightarrow> md_script \<Rightarrow> string \<Rightarrow> md_format \<Rightarrow> md_event list \<times> outcome" where
  "md_prepare_output env s input_dir selected_format =
     (case ask_default (path_join input_dir ''markdown_output'') (output_dir_answer s) of
        Inl e \<Rightarrow> ([], Raised e)
      | Inr output_dir \<Rightarrow>
          prepend [Makedirs output_dir]
            (case makedirs_result env output_dir of
               Some e \<Rightarrow> ([], Raised e)
             | None \<Rightarrow> md_scan_and_convert env s input_dir selected_format output_dir))"

definition md_main :: "md_env \<Rightarrow> md_script \<Rightarrow> md_event list \<times> outcome" where
  "md_main env s =
     prepend [Print Banner]
       (case ask_default (script_dir env) (input_dir_answer s) of
          Inl e \<Rightarrow> ([], Raised e)
        | Inr input_dir \<Rightarrow>
            prepend format_menu
              (case ask_default ''1'' (choice_answer s) of
                 Inl e \<Rightarrow> ([], Raised e)
               | Inr choice \<Rightarrow>
                   (case format_choices choice of
                      None \<Rightarrow> ([], Raised (Exception ''KeyError''))
                    | Some selected_format \<Rightarrow>
                        if choice = ''4'' then
                          (case ask (extensions_answer s) of
                             Inl e \<Rightarrow> ([], Raised e)
                           | Inr extensions_input \<Rightarrow>
                               md_prepare_output env s input_dir
                                 (selected_format\<lparr>fmt_ext := custom_extensions extensions_input\<rparr>))
                        else md_prepare_output env s input_dir selected_format)))"

text \<open>
  The Markdown tool has no handler around \<open>main()\<close>: an exception that leaves \<open>main\<close>
  reaches the interpreter, which prints the stack trace and ends the process with a non-zero
  status.
\<close>

record 'e process_end =
  shown :: "'e list"
  status :: exit_status
  stack_trace :: bool

definition md_program :: "md_env \<Rightarrow> md_script \<Rightarrow> md_event process_end" where
  "md_program env s =
     (case md_main env s of
        (ev, Returned) \<Rightarrow> \<lparr>shown = ev, status = ExitSuccess, stack_trace = False\<rparr>
      | (ev, Raised e) \<Rightarrow> \<lparr>shown = ev, status = ExitFailure, stack_trace = True\<rparr>)"


section \<open>The presentation tool: selection\<close>

text \<open>
  \<open>int(text)\<close> on ASCII text: white space around the number is ignored, one sign may
  come first, and the digits may be grouped by single underscores. \<open>None\<close> is the
  \<open>ValueError\<close>.
\<close>

definition is_digit :: "char \<Rightarrow> bool" where
  "is_digit c = (c \<in> set ''0123456789'')"

definition digit_value :: "char \<Rightarrow> int" where
  "digit_value c = int (of_char c) - 48"

fun more_digits :: "int \<Rightarrow> string \<Rightarrow> int option" where
  "more_digits acc [] = Some acc"
| "more_digits acc [c] = (if is_digit c then Some (10 * acc + digit_value c) else None)"
| "more_digits acc (c # d # cs) =
     (if is_digit c then more_digits (10 * acc + digit_value c) (d # cs)
      else if c = CHR ''_'' \<and> is_digit d then more_digits acc (d # cs)
      else None)"

definition unsigned_int :: "string \<Rightarrow> int option" where
  "unsigned_int t =
     (case t of
        [] \<Rightarrow> None
      | c # cs \<Rightarrow> if is_digit c then more_digits (digit_value c) cs else None)"

definition py_int :: "string \<Rightarrow> int option" where
  "py_int text =
     (case strip text of
        [] \<Rightarrow> None
      | c # cs \<Rightarrow>
          if c = CHR ''-'' then map_option uminus (unsigned_int cs)
          else if c = CHR ''+'' then unsigned_int cs
          else unsigned_int (c # cs))"

text \<open>
  \<open>[int(idx.strip()) - 1 for idx in selection.split(",")]\<close>: the first token that is
  not a number raises, and no list is built.
\<close>

fun int_tokens :: "string list \<Rightarrow> int list option" where
  "int_tokens [] = Some []"
| "int_tokens (idx # rest) =
     (case py_int (strip idx) of
        None \<Rightarrow> None
      | Some n \<Rightarrow> (case int_tokens rest of None \<Rightarrow> None | Some ns \<Rightarrow> Some ((n - 1) # ns)))"

definition parse_indices :: "string \<Rightarrow> int list option" where
  "parse_indices selection = int_tokens (split_on CHR '','' selection)"

text \<open>\<open>[files[idx] for idx in indices if 0 <= idx < len(files)]\<close>.\<close>

definition pick :: "'a list \<Rightarrow> int list \<Rightarrow> 'a list" where
  "pick files indices =
     map (\<lambda>idx. files ! nat idx) (filter (\<lambda>idx. 0 \<le> idx \<and> idx < int (length files)) indices)"

text \<open>
  A candidate is a \<open>Path\<close>: the directory it was found in and its name there.
  The events of a run are what it prints and the calls it makes on the outside world, in
  order; a call is an event whether it returns or raises. \<open>ComOpen p w\<close> is
  \<open>Presentations.Open\<close> on \<open>p\<close>, with \<open>w\<close> false when \<open>WithWindow=False\<close> is
  passed; \<open>ComSaveAs p 32\<close> is \<open>SaveAs\<close> to \<open>p\<close> with the format code for PDF.
  Purely visual output (prompt texts, progress bar updates) is not part of the events.
\<close>

type_synonym path = "string \<times> string"

datatype ppt_msg =
    MissingDependencies "string list"
  | Title
  | NoCandidates
  | FileTable "(nat \<times> string \<times> nat) list"
  | NothingValidSelected
  | MalformedSelection
  | BackgroundWarning
  | ConversionError string string
  | NoPptxFound string
  | SelectedHeader
  | SelectedItem nat string
  | OperationCancelled
  | AllConverted string
  | InterruptNotice
  | ErrorNotice string

datatype ppt_event =
    Say ppt_msg
  | Mkdir string
  | ComCreate
  | ComSetVisible
  | ComOpen path bool
  | ComSaveAs path nat
  | ComClose
  | ComQuit

text \<open>
  \<open>console.print\<close> reads its argument as markup. Four messages carry text from outside
  the program inside the markup (a typed directory, the text of an exception); on such a
  text the console can raise instead of printing, as it does on a closing tag that closes
  nothing. \<open>markup m\<close> is what the console does on the message \<open>m\<close>: \<open>None\<close> when it
  prints, the exception when it raises, and then nothing is printed. The other messages
  are fixed texts and file names, which hold no \<open>/\<close> and so no closing tag.
\<close>

fun carries_text :: "ppt_msg \<Rightarrow> bool" where
  "carries_text (ConversionError name m) = True"
| "carries_text (NoPptxFound d) = True"
| "carries_text (AllConverted d) = True"
| "carries_text (ErrorNotice m) = True"
| "carries_text m = False"

definition console_print :: "(ppt_msg \<Rightarrow> py_exn option) \<Rightarrow> ppt_msg \<Rightarrow> ppt_event list \<times> py_exn option" where
  "console_print markup m =
     (if carries_text m
      then (case markup m of None \<Rightarrow> ([Say m], None) | Some e \<Rightarrow> ([], Some e))
      else ([Say m], None))"

text \<open>
  The \<open>while True\<close> loop of \<open>select_ppt_files\<close>, over the operator's successive
  answers to the selection prompt; when they run out the prompt raises \<open>EOFError\<close>.
\<close>

fun select_loop :: "path list \<Rightarrow> string prompt_result list \<Rightarrow> ppt_event list \<times> (py_exn + path list)" where
  "select_loop files [] = ([], Inl (Exception ''EOFError''))"
| "select_loop files (r # rs) =
     (case ask r of
        Inl e \<Rightarrow> ([], Inl e)
      | Inr selection \<Rightarrow>
          if lower selection = ''0'' then ([], Inr files)
          else
            (case parse_indices selection of
               None \<Rightarrow> prepend [Say MalformedSelection] (select_loop files rs)
             | Some indices \<Rightarrow>
                 (let selected_files = pick files indices
                  in if selected_files = []
                     then prepend [Say NothingValidSelected] (select_loop files rs)
                     else ([], Inr selected_files))))"

text \<open>The rows of the table: \<open>file.stat()\<close> can raise, at the first file it fails for.\<close>

fun table_rows :: "(path \<Rightarrow> py_exn + nat) \<Rightarrow> nat \<Rightarrow> path list \<Rightarrow> py_exn + (nat \<times> string \<times> nat) list" where
  "table_rows stat i [] = Inr []"
| "table_rows stat i (file # files) =
     (case stat file of
        Inl e \<Rightarrow> Inl e
      | Inr st_size \<Rightarrow>
          (case table_rows stat (Suc i) files of
             Inl e \<Rightarrow> Inl e
           | Inr rows \<Rightarrow> Inr ((i, snd file, st_size) # rows)))"

definition select_ppt_files ::
  "(path \<Rightarrow> py_exn + nat) \<Rightarrow> path list \<Rightarrow> string prompt_result list \<Rightarrow> ppt_event list \<times> (py_exn + path list)" where
  "select_ppt_files stat files answers =
     (if files = [] then ([Say NoCandidates], Inr [])
      else
        (case table_rows stat 1 files of
           Inl e \<Rightarrow> ([], Inl e)
         | Inr rows \<Rightarrow> prepend [Say (FileTable rows)] (select_loop files answers)))"

section \<open>The presentation tool: conversion\<close>

text \<open>
  What each call of the automation interface does during one conversion: \<open>None\<close> when
  it returns, the exception when it raises.
\<close>

record com_env =
  create_object :: "py_exn option"
  set_visible :: "py_exn option"
  open_without_window :: "py_exn option"
  open_plain :: "py_exn option"
  save_as :: "py_exn option"
  close_presentation :: "py_exn option"
  quit_app :: "py_exn option"

text \<open>\<open>Path.stem\<close>: the name without its last suffix.\<close>

definition stem :: "string \<Rightarrow> string" where
  "stem name =
     (let ext = rev (takeWhile (\<lambda>c. c \<noteq> CHR ''.'') (rev name));
          i = length name - length ext - 1
      in if CHR ''.'' \<in> set name \<and> 0 < i \<and> ext \<noteq> [] then take i name else name)"

text \<open>
  The body of the \<open>try\<close> block of \<open>convert_pptx_to_pdf\<close>: its events, how it ends, and
  whether \<open>powerpoint\<close> holds a handle when it ends. The two bare \<open>except:\<close> clauses
  catch every exception, \<open>KeyboardInterrupt\<close> too.
\<close>

definition convert_body :: "com_env \<Rightarrow> path \<Rightarrow> path \<Rightarrow> ppt_event list \<times> (py_exn + path) \<times> bool" where
  "convert_body c pptx_path pdf_path =
     (case create_object c of
        Some e \<Rightarrow> ([ComCreate], Inl e, False)
      | None \<Rightarrow>
          (let ev1 = [ComCreate, ComSetVisible]
                 @ (case set_visible c of None \<Rightarrow> [] | Some e \<Rightarrow> [Say BackgroundWarning]);
               (ev2, opened) =
                 (case open_without_window c of
                    None \<Rightarrow> ([ComOpen pptx_path False], None)
                  | Some e \<Rightarrow> ([ComOpen pptx_path False, ComOpen pptx_path True], open_plain c))
           in case opened of
                Some e \<Rightarrow> (ev1 @ ev2, Inl e, True)
              | None \<Rightarrow>
                  (case save_as c of
                     Some e \<Rightarrow> (ev1 @ ev2 @ [ComSaveAs pdf_path 32], Inl e, True)
                   | None \<Rightarrow>
                       (case close_presentation c of
                          Some e \<Rightarrow> (ev1 @ ev2 @ [ComSaveAs pdf_path 32, ComClose], Inl e, True)
                        | None \<Rightarrow> (ev1 @ ev2 @ [ComSaveAs pdf_path 32, ComClose], Inr pdf_path, True)))))"

text \<open>
  The world of one run of the presentation tool: the packages that fail to import, the
  working directory, what a path is on disk when it is globbed, \<open>Path.stat\<close>, how
  \<open>mkdir(parents=True, exist_ok=True)\<close> ends, \<open>Path.resolve\<close> on a file (which can
  change directory and name, through a link) and on a directory, the default output
  directory pathlib builds under a directory, the console's reading of markup, and the
  automation interface during the \<open>i\<close>-th conversion of the run.
\<close>

record ppt_env =
  missing_deps :: "string list"
  cwd :: string
  ppt_path_state :: "string \<Rightarrow> dir_state"
  stat_size :: "path \<Rightarrow> py_exn + nat"
  mkdir_result :: "string \<Rightarrow> py_exn option"
  resolve_file :: "path \<Rightarrow> path"
  resolve_dir :: "string \<Rightarrow> string"
  default_output :: "string \<Rightarrow> string"
  console_markup :: "ppt_msg \<Rightarrow> py_exn option"
  com :: "nat \<Rightarrow> com_env"

text \<open>
  The \<open>except Exception as e\<close> clause of \<open>convert_pptx_to_pdf\<close>: an instance of
  \<open>Exception\<close> is reported and raised again; when the console raises on the report,
  that exception leaves the clause instead. A keyboard interrupt passes the clause by.
\<close>

definition report_and_raise :: "ppt_env \<Rightarrow> string \<Rightarrow> py_exn \<Rightarrow> ppt_event list \<times> py_exn" where
  "report_and_raise env name e =
     (case e of
        KeyboardInterrupt \<Rightarrow> ([], e)
      | Exception m \<Rightarrow>
          (case console_print (console_markup env) (ConversionError name m) of
             (ev, None) \<Rightarrow> (ev, e)
           | (ev, Some e') \<Rightarrow> (ev, e')))"

text \<open>
  \<open>convert_pptx_to_pdf\<close>: the two paths are resolved, then the body runs, then the
  \<open>except\<close> clause, then the \<open>finally\<close> clause (\<open>Quit\<close> when there is a handle; what
  \<open>Quit\<close> raises is dropped). A handle that \<open>CreateObject\<close> returned is a non-null
  interface pointer, which \<open>if powerpoint:\<close> takes as true.
\<close>

definition convert_pptx_to_pdf ::
  "ppt_env \<Rightarrow> com_env \<Rightarrow> path \<Rightarrow> string \<Rightarrow> ppt_event list \<times> (py_exn + path)" where
  "convert_pptx_to_pdf env c pptx_path output_folder =
     (let pptx = resolve_file env pptx_path;
          pdf_path = (resolve_dir env output_folder, stem (snd pptx) @ ''.pdf'');
          (ev, result, acquired) = convert_body c pptx pdf_path;
          (reported, final) =
            (case result of
               Inl e \<Rightarrow> (case report_and_raise env (snd pptx) e of (evr, e') \<Rightarrow> (evr, Inl e'))
             | Inr pdf \<Rightarrow> ([], Inr pdf));
          released = (if acquired then [ComQuit] else [])
      in (ev @ reported @ released, final))"

text \<open>
  The loop of \<open>main\<close> over the selected files: nothing catches what a conversion raises.
  The \<open>i\<close>-th conversion of the run meets the automation interface \<open>com env i\<close>.
\<close>

fun convert_selected ::
  "ppt_env \<Rightarrow> nat \<Rightarrow> path list \<Rightarrow> string \<Rightarrow> ppt_event list \<times> outcome" where
  "convert_selected env i [] output_dir = ([], Returned)"
| "convert_selected env i (pptx_file # rest) output_dir =
     (case convert_pptx_to_pdf env (com env i) pptx_file output_dir of
        (ev, Inl e) \<Rightarrow> (ev, Raised e)
      | (ev, Inr pdf_file) \<Rightarrow> prepend ev (convert_selected env (Suc i) rest output_dir))"

section \<open>The presentation tool: main\<close>

record ppt_script =
  directory_answer :: "string option prompt_result"
  selection_answers :: "string prompt_result list"
  confirm_answer :: "bool prompt_result"
  output_answer :: "string option prompt_result"

fun selected_items :: "nat \<Rightarrow> path list \<Rightarrow> ppt_event list" where
  "selected_items i [] = []"
| "selected_items i (file # files) = Say (SelectedItem i (snd file)) # selected_items (Suc i) files"

text \<open>\<open>main\<close> from the confirmation on: lines 142 to 166.\<close>

definition ppt_confirm_and_convert :: "ppt_env \<Rightarrow> ppt_script \<Rightarrow> string \<Rightarrow> path list \<Rightarrow> ppt_event list \<times> outcome" where
  "ppt_confirm_and_convert env s current_dir selected_files =
     (case ask (confirm_answer s) of
        Inl e \<Rightarrow> ([], Raised e)
      | Inr False \<Rightarrow> ([Say OperationCancelled], Returned)
      | Inr True \<Rightarrow>
          (case ask_default (default_output env current_dir) (output_answer s) of
             Inl e \<Rightarrow> ([], Raised e)
           | Inr output_dir \<Rightarrow>
               prepend [Mkdir output_dir]
                 (case mkdir_result env output_dir of
                    Some e \<Rightarrow> ([], Raised e)
                  | None \<Rightarrow>
                      (case convert_selected env 0 selected_files output_dir of
                         (ev, Raised e) \<Rightarrow> (ev, Raised e)
                       | (ev, Returned) \<Rightarrow>
                           (case console_print (console_markup env) (AllConverted output_dir) of
                              (evp, None) \<Rightarrow> (ev @ evp, Returned)
                            | (evp, Some e) \<Rightarrow> (ev @ evp, Raised e))))))"

definition ppt_main :: "ppt_env \<Rightarrow> ppt_script \<Rightarrow> ppt_event list \<times> outcome" where
  "ppt_main env s =
     prepend [Say Title]
       (case ask_default (cwd env) (directory_answer s) of
          Inl e \<Rightarrow> ([], Raised e)
        | Inr current_dir \<Rightarrow>
            (let ppt_files = map (Pair current_dir) (get_ppt_files (ppt_path_state env current_dir))
             in if ppt_files = [] then
                  (case console_print (console_markup env) (NoPptxFound current_dir) of
                     (evp, None) \<Rightarrow> (evp, Returned)
                   | (evp, Some e) \<Rightarrow> (evp, Raised e))
                else
                  (case select_ppt_files (stat_size env) ppt_files (selection_answers s) of
                     (ev, Inl e) \<Rightarrow> (ev, Raised e)
                   | (ev, Inr selected_files) \<Rightarrow>
                       prepend ev
                         (if selected_files = [] then ([], Returned)
                          else prepend (Say SelectedHeader # selected_items 1 selected_files)
                                 (ppt_confirm_and_convert env s current_dir selected_files)))))"

text \<open>
  The module from top to bottom: the import check (\<open>sys.exit(1)\<close> when a package is
  missing), then \<open>main()\<close> inside the handlers of the last lines. A keyboard interrupt
  is reported and the module ends normally; any other exception is reported and raised
  again (or the console raises on the report), which the interpreter answers with the
  stack trace and a non-zero status.
\<close>

definition ppt_program :: "ppt_env \<Rightarrow> ppt_script \<Rightarrow> ppt_event process_end" where
  "ppt_program env s =
     (if missing_deps env \<noteq> []
      then \<lparr>shown = [Say (MissingDependencies (missing_deps env))], status = ExitFailure, stack_trace = False\<rparr>
      else
        (case ppt_main env s of
           (ev, Returned) \<Rightarrow> \<lparr>shown = ev, status = ExitSuccess, stack_trace = False\<rparr>
         | (ev, Raised KeyboardInterrupt) \<Rightarrow>
             \<lparr>shown = ev @ [Say InterruptNotice], status = ExitSuccess, stack_trace = False\<rparr>
         | (ev, Raised (Exception m)) \<Rightarrow>
             \<lparr>shown = ev @ fst (console_print (console_markup env) (ErrorNotice m)),
              status = ExitFailure, stack_trace = True\<rparr>))"

section \<open>Observations on runs\<close>

text \<open>The external commands a run of the Markdown tool starts, in order.\<close>

fun run_commands :: "md_event list \<Rightarrow> string list list" where
  "run_commands [] = []"
| "run_commands (RunProcess cmd # ev) = cmd # run_commands ev"
| "run_commands (e # ev) = run_commands ev"




text \<open>The calls of the automation interface among the events of the presentation tool.\<close>

fun is_com :: "ppt_event \<Rightarrow> bool" where
  "is_com (Say m) = False"
| "is_com (Mkdir d) = False"
| "is_com e = True"

text \<open>
  The numbers the operator typed at the selection prompt: \<open>int(idx.strip())\<close> of
  every token, before \<open>- 1\<close> turns them into list positions.
\<close>

fun typed_numbers_of :: "string list \<Rightarrow> int list option" where
  "typed_numbers_of [] = Some []"
| "typed_numbers_of (idx # rest) =
     (case py_int (strip idx) of
        None \<Rightarrow> None
      | Some n \<Rightarrow> (case typed_numbers_of rest of None \<Rightarrow> None | Some ns \<Rightarrow> Some (n # ns)))"

definition typed_numbers :: "string \<Rightarrow> int list option" where
  "typed_numbers selection = typed_numbers_of (split_on CHR '','' selection)"

section \<open>Example worlds\<close>

text \<open>An automation interface on which every call returns.\<close>

definition com_ok :: com_env where
  "com_ok = \<lparr>create_object = None, set_visible = None, open_without_window = None,
            open_plain = None, save_as = None, close_presentation = None, quit_app = None\<rparr>"

text \<open>
  A directory \<open>C:/work\<close> that holds \<open>b.pptx\<close>, \<open>A.PPTX\<close> and \<open>notes.txt\<close>; every other
  path is missing. Paths resolve to themselves, the console prints every message, and
  saving the first presentation of a run fails.
\<close>

definition demo_ppt_env :: ppt_env where
  "demo_ppt_env =
     \<lparr>missing_deps = [],
      cwd = ''C:/work'',
      ppt_path_state = (\<lambda>d. if d = ''C:/work''
         then Directory [(''b.pptx'', RegularFile), (''A.PPTX'', RegularFile), (''notes.txt'', RegularFile)]
         else Missing),
      stat_size = (\<lambda>f. Inr 2048),
      mkdir_result = (\<lambda>d. None),
      resolve_file = (\<lambda>p. p),
      resolve_dir = (\<lambda>d. d),
      default_output = (\<lambda>d. d @ ''/PDF''),
      console_markup = (\<lambda>m. None),
      com = (\<lambda>i. if i = 0 then com_ok\<lparr>save_as := Some (Exception ''save failed'')\<rparr> else com_ok)\<rparr>"


text \<open>The operator accepts every default, selects everything and confirms.\<close>

definition demo_ppt_script :: ppt_script where
  "demo_ppt_script =
     \<lparr>directory_answer = Answer None,
      selection_answers = [Answer ''0''],
      confirm_answer = Answer True,
      output_answer = Answer None\<rparr>"

text \<open>
  A directory \<open>/docs\<close> that holds \<open>b.pdf\<close>, \<open>a.pdf\<close>, \<open>c.docx\<close> and the output
  directory \<open>markdown_output\<close>, listed in that order; every other path is missing. The
  first command of a run exits with status 1.
\<close>

definition demo_md_env :: md_env where
  "demo_md_env =
     \<lparr>script_dir = ''/docs'',
      makedirs_result = (\<lambda>d. None),
      md_path_state = (\<lambda>d. if d = ''/docs''
         then Directory [(''b.pdf'', RegularFile), (''a.pdf'', RegularFile), (''c.docx'', RegularFile),
                         (''markdown_output'', SubDirectory)]
         else Missing),
      md_run = (\<lambda>i cmd. if i = 0 then Exited 1 else Exited 0)\<rparr>"

definition demo_md_script :: md_script where
  "demo_md_script =
     \<lparr>input_dir_answer = Answer None,
      choice_answer = Answer None,
      extensions_answer = EndOfInput,
      output_dir_answer = Answer None,
      start_answer = Answer None\<rparr>"

section \<open>Facts about the string functions and the scan\<close>

lemma endswith_Nil: "endswith s []"
  by (simp add: endswith_def)

lemma lower_Nil: "lower [] = []"
  by (simp add: lower_def)

lemma strip_Nil: "strip [] = []"
  by (simp add: strip_def)

lemma split_on_not_Nil: "split_on sep s \<noteq> []"
  by (induction s) (auto split: list.splits)

lemma split_on_snoc_sep: "split_on sep (s @ [sep]) = split_on sep s @ [[]]"
  by (induction s) (auto simp: split_on_not_Nil split: list.splits)

lemma any_suffix_iff: "any_suffix f exts \<longleftrightarrow> (\<exists>e\<in>set exts. endswith f e)"
  by (induction exts) auto

lemma scan_names_filter:
  "scan_names exts names = filter (\<lambda>f. any_suffix (lower f) exts) names"
  by (induction names) auto

lemma custom_extensions_empty_input: "custom_extensions [] = [[]]"
  by (simp add: custom_extensions_def strip_Nil)

lemma custom_extensions_trailing_comma: "[] \<in> set (custom_extensions (s @ '',''))"
proof -
  have "[] \<in> set (split_on CHR '','' (s @ '',''))"
    by (simp add: split_on_snoc_sep)
  then have "strip [] \<in> set (custom_extensions (s @ '',''))"
    unfolding custom_extensions_def set_map by (rule imageI)
  then show ?thesis by (simp add: strip_Nil)
qed

section \<open>The file listers\<close>

text \<open>
  Claim C2, as amended. The Markdown tool's lister keeps, in the order the operating
  system lists them and without sorting, exactly the entries of the directory (files and
  subdirectories alike) whose lower-cased name ends with a lower-cased member of the
  extension list. The presentation tool's lister returns exactly the entries whose
  lower-cased name ends with \<open>.pptx\<close>, ordered by lower-cased name.
\<close>

theorem listers_contents_and_order:
  "os_listdir (Directory es) = Inr (map fst es)
   \<and> target_files ext (map fst es)
       = filter (\<lambda>n. \<exists>e\<in>set ext. endswith (lower n) (lower e)) (map fst es)
   \<and> sorted (map lower (get_ppt_files (Directory es)))
   \<and> set (get_ppt_files (Directory es)) = {n. n \<in> fst ` set es \<and> endswith (lower n) ''.pptx''}"
proof -
  have "target_files ext (map fst es)
          = filter (\<lambda>n. \<exists>e\<in>set ext. endswith (lower n) (lower e)) (map fst es)"
    by (auto simp: target_files_def scan_names_filter any_suffix_iff intro!: filter_cong)
  moreover have "sorted (map lower (get_ppt_files (Directory es)))"
    by (simp add: get_ppt_files_def)
  moreover have "set (get_ppt_files (Directory es))
                   = {n. n \<in> fst ` set es \<and> endswith (lower n) ''.pptx''}"
    by (auto simp: get_ppt_files_def glob_pptx_def)
  ultimately show ?thesis
    by (simp add: os_listdir_def)
qed

text \<open>
  Claim C2 as stated fails on the Markdown tool: a directory the operating system lists
  as \<open>b.pdf\<close> (a file) then \<open>a.pdf\<close> (a subdirectory) gives the candidates in that
  order, which is not the order of the names, and the subdirectory is among them.
\<close>

theorem md_lister_unsorted_counterexample:
  "os_listdir (Directory [(''b.pdf'', RegularFile), (''a.pdf'', SubDirectory)]) = Inr [''b.pdf'', ''a.pdf'']
   \<and> target_files [''.pdf''] [''b.pdf'', ''a.pdf''] = [''b.pdf'', ''a.pdf'']
   \<and> \<not> sorted (target_files [''.pdf''] [''b.pdf'', ''a.pdf''])"
  by (simp add: os_listdir_def target_files_def lower_def lower_char_def endswith_def)

text \<open>
  Claim C9. When the custom extension input holds an empty token, every name of the
  listing is a candidate: every lower-cased name ends with the empty suffix.
\<close>

theorem empty_extension_matches_all:
  assumes "[] \<in> set (custom_extensions extensions_input)"
  shows "target_files (custom_extensions extensions_input) names = names"
proof -
  from assms have "lower [] \<in> lower ` set (custom_extensions extensions_input)"
    by (rule imageI)
  then have "[] \<in> set (map lower (custom_extensions extensions_input))"
    by (simp add: lower_Nil)
  then have "any_suffix f (map lower (custom_extensions extensions_input))" for f
    unfolding any_suffix_iff using endswith_Nil by blast
  then show ?thesis
    by (simp add: target_files_def scan_names_filter)
qed

theorem empty_extension_matches_all_witness:
  "[] \<in> set (custom_extensions ''.pdf,'')
   \<and> [] \<in> set (custom_extensions '''')
   \<and> target_files (custom_extensions ''.pdf,'') [''a.pdf'', ''notes.txt'', ''markdown_output'']
       = [''a.pdf'', ''notes.txt'', ''markdown_output'']
   \<and> target_files (custom_extensions '''') [''a.pdf'', ''notes.txt''] = [''a.pdf'', ''notes.txt'']"
proof -
  have a: "[] \<in> set (custom_extensions ''.pdf,'')"
    using custom_extensions_trailing_comma [of "''.pdf''"] by simp
  have b: "[] \<in> set (custom_extensions '''')"
    by (simp add: custom_extensions_empty_input)
  show ?thesis
    using a b empty_extension_matches_all [OF a] empty_extension_matches_all [OF b] by simp
qed

section \<open>Output paths of the Markdown converter\<close>

lemma endswith_slash: "endswith a ''/'' \<longleftrightarrow> a \<noteq> [] \<and> last a = CHR ''/''"
proof (cases a rule: rev_cases)
  case Nil then show ?thesis by (simp add: endswith_def)
next
  case (snoc ys y) then show ?thesis by (auto simp: endswith_def)
qed

lemma basename_no_slash: "CHR ''/'' \<notin> set (basename p)"
proof
  assume "CHR ''/'' \<in> set (basename p)"
  then have "CHR ''/'' \<in> set (takeWhile (\<lambda>c. c \<noteq> CHR ''/'') (rev p))"
    by (simp add: basename_def)
  then show False using set_takeWhileD by fastforce
qed

lemma splitext_root_subset: "set (fst (splitext p)) \<subseteq> set p"
  by (auto simp: splitext_def Let_def dest: in_set_takeD)

lemma path_head_slash_free:
  assumes "CHR ''/'' \<notin> set name"
  shows "path_head (a @ name) = path_head a"
proof -
  have "dropWhile (\<lambda>c. c \<noteq> CHR ''/'') (rev name @ rev a) = dropWhile (\<lambda>c. c \<noteq> CHR ''/'') (rev a)"
    by (rule dropWhile_append2) (use assms in auto)
  then show ?thesis by (simp add: path_head_def)
qed

lemma path_head_ends_slash: "a \<noteq> [] \<Longrightarrow> last a = CHR ''/'' \<Longrightarrow> path_head a = a"
  by (cases a rule: rev_cases) (auto simp: path_head_def)

lemma basename_after_dir:
  assumes "CHR ''/'' \<notin> set name" and "a = [] \<or> last a = CHR ''/''"
  shows "basename (a @ name) = name"
proof (cases a rule: rev_cases)
  case Nil
  have h: "takeWhile (\<lambda>c. c \<noteq> CHR ''/'') (rev name) = rev name"
    unfolding takeWhile_eq_all_conv using assms(1) by auto
  show ?thesis by (simp add: basename_def Nil h)
next
  case (snoc ys y)
  with assms have "y = CHR ''/''" by simp
  moreover have "takeWhile (\<lambda>c. c \<noteq> CHR ''/'') (rev name @ rev a) = rev name @ takeWhile (\<lambda>c. c \<noteq> CHR ''/'') (rev a)"
    by (rule takeWhile_append2) (use assms(1) in auto)
  ultimately show ?thesis using snoc
    by (simp add: basename_def)
qed

lemma replicate_length_iff: "h = replicate (length h) c \<longleftrightarrow> set h \<subseteq> {c}"
  by (induction h) auto

lemma rstrip_slash_last: "rstrip_slash h = [] \<or> last (rstrip_slash h) \<noteq> CHR ''/''"
proof (cases "dropWhile (\<lambda>c. c = CHR ''/'') (rev h) = []")
  case True
  then show ?thesis by (simp add: rstrip_slash_def)
next
  case False
  then have "hd (dropWhile (\<lambda>c. c = CHR ''/'') (rev h)) \<noteq> CHR ''/''"
    using hd_dropWhile [of "\<lambda>c. c = CHR ''/''" "rev h"] by simp
  with False show ?thesis
    by (simp add: rstrip_slash_def last_rev)
qed

lemma dirname_shape:
  "dirname p = [] \<or> (dirname p \<noteq> [] \<and> set (dirname p) \<subseteq> {CHR ''/''})
     \<or> (dirname p \<noteq> [] \<and> last (dirname p) \<noteq> CHR ''/'')"
proof (cases "path_head p \<noteq> [] \<and> \<not> set (path_head p) \<subseteq> {CHR ''/''}")
  case False
  then have "dirname p = path_head p"
    by (auto simp: dirname_def Let_def replicate_length_iff)
  with False show ?thesis by auto
next
  case True
  then have "dirname p = rstrip_slash (path_head p)"
    by (auto simp: dirname_def Let_def replicate_length_iff)
  with rstrip_slash_last [of "path_head p"] show ?thesis by auto
qed

lemma dirname_join_name:
  assumes shape: "d = [] \<or> (d \<noteq> [] \<and> set d \<subseteq> {CHR ''/''}) \<or> (d \<noteq> [] \<and> last d \<noteq> CHR ''/'')"
    and name: "CHR ''/'' \<notin> set name" "name \<noteq> []"
  shows "dirname (path_join d name) = d \<and> basename (path_join d name) = name"
proof -
  from name have nohead: "take 1 name \<noteq> ''/''"
    by (cases name) auto
  consider (empty) "d = []" | (slashes) "d \<noteq> []" "set d \<subseteq> {CHR ''/''}"
    | (proper) "d \<noteq> []" "last d \<noteq> CHR ''/''"
    using shape by blast
  then show ?thesis
  proof cases
    case empty
    then have j: "path_join d name = name" using nohead by (simp add: path_join_def)
    have "path_head name = []" using path_head_slash_free [OF name(1), of "[]"]
      by (simp add: path_head_def)
    then have "dirname name = []" by (simp add: dirname_def)
    moreover have "basename name = name" using basename_after_dir [OF name(1), of "[]"] by simp
    ultimately show ?thesis using j empty by simp
  next
    case slashes
    from slashes(1) have "last d \<in> set d" by (rule last_in_set)
    with slashes(2) have l: "last d = CHR ''/''" by auto
    then have j: "path_join d name = d @ name"
      using nohead slashes(1) by (simp add: path_join_def endswith_slash)
    have h: "path_head (d @ name) = d"
      using path_head_slash_free [OF name(1)] path_head_ends_slash [OF slashes(1) l] by simp
    have "dirname (d @ name) = d"
      unfolding dirname_def h Let_def replicate_length_iff using slashes(2) by simp
    moreover have "basename (d @ name) = name"
      using basename_after_dir [OF name(1)] l by simp
    ultimately show ?thesis using j by simp
  next
    case proper
    then have j: "path_join d name = (d @ ''/'') @ name"
      using nohead by (simp add: path_join_def endswith_slash)
    have h: "path_head ((d @ ''/'') @ name) = d @ ''/''"
      using path_head_slash_free [OF name(1), of "d @ ''/''"] path_head_ends_slash [of "d @ ''/''"] by simp
    from proper(1) have "last d \<in> set d" by (rule last_in_set)
    with proper(2) have notrep: "\<not> set (d @ ''/'') \<subseteq> {CHR ''/''}" by auto
    have rs: "rstrip_slash (d @ ''/'') = d"
      using proper by (cases d rule: rev_cases) (auto simp: rstrip_slash_def)
    have "dirname ((d @ ''/'') @ name) = d"
      unfolding dirname_def h Let_def replicate_length_iff using notrep rs by simp
    moreover have "basename ((d @ ''/'') @ name) = name"
      using basename_after_dir [OF name(1), of "d @ ''/''"] by simp
    ultimately show ?thesis using j by simp
  qed
qed

lemma takeWhile_until:
  assumes "\<forall>x\<in>set xs. P x" and "\<not> P y"
  shows "takeWhile P (xs @ y # ys) = xs"
  using assms by (induction xs) auto

lemma basename_slash_free: "CHR ''/'' \<notin> set name \<Longrightarrow> basename name = name"
  using basename_after_dir [of name "[]"] by simp

lemma splitext_proper:
  assumes "CHR ''/'' \<notin> set (base @ ''.'' @ ext)" and "CHR ''.'' \<notin> set ext"
    and "\<exists>c\<in>set base. c \<noteq> CHR ''.''"
  shows "fst (splitext (base @ ''.'' @ ext)) = base"
proof -
  let ?name = "base @ ''.'' @ ext"
  have b: "basename ?name = ?name"
    using assms(1) by (rule basename_slash_free)
  have "takeWhile (\<lambda>c. c \<noteq> CHR ''.'') (rev ext @ CHR ''.'' # rev base) = rev ext"
    by (rule takeWhile_until) (use assms(2) in auto)
  then have e: "rev (takeWhile (\<lambda>c. c \<noteq> CHR ''.'') (rev ?name)) = ext"
    by simp
  have l: "list_ex (\<lambda>c. c \<noteq> CHR ''.'') base"
    using assms(3) by (simp add: list_ex_iff)
  show ?thesis
    unfolding splitext_def b Let_def e using l by simp
qed

lemma splitext_dots:
  assumes "CHR ''/'' \<notin> set (replicate k (CHR ''.'') @ rest)" and "CHR ''.'' \<notin> set rest"
  shows "fst (splitext (replicate k (CHR ''.'') @ rest)) = replicate k (CHR ''.'') @ rest"
proof (cases k)
  case 0
  with assms(1) have "basename rest = rest"
    by (simp add: basename_slash_free)
  with 0 assms(2) show ?thesis
    by (simp add: splitext_def Let_def)
next
  case (Suc j)
  let ?name = "replicate k (CHR ''.'') @ rest"
  have b: "basename ?name = ?name"
    using assms(1) by (rule basename_slash_free)
  have r: "rev ?name = rev rest @ CHR ''.'' # replicate j (CHR ''.'')"
    using Suc by (simp add: replicate_append_same)
  have t: "takeWhile (\<lambda>c. c \<noteq> CHR ''.'') (rev rest @ CHR ''.'' # replicate j (CHR ''.'')) = rev rest"
    by (rule takeWhile_until) (use assms(2) in auto)
  have e: "rev (takeWhile (\<lambda>c. c \<noteq> CHR ''.'') (rev ?name)) = rest"
    unfolding r t by simp
  have "length ?name - length rest - 1 = j"
    using Suc by simp
  moreover have "take j (replicate (Suc j) (CHR ''.'') @ rest) = replicate j (CHR ''.'')"
    by (simp add: min_def del: replicate.simps)
  ultimately have "take (length ?name - length rest - 1) ?name = replicate j (CHR ''.'')"
    using Suc by (simp del: replicate.simps)
  then have "\<not> list_ex (\<lambda>c. c \<noteq> CHR ''.'') (take (length ?name - length rest - 1) ?name)"
    by (simp add: list_ex_iff)
  then show ?thesis
    unfolding splitext_def b Let_def e by simp
qed

lemma dirname_slashes:
  assumes "CHR ''/'' \<notin> set name"
  shows "dirname (replicate n (CHR ''/'') @ name) = replicate n (CHR ''/'')"
proof -
  have "path_head (replicate n (CHR ''/'')) = replicate n (CHR ''/'')"
  proof (cases n)
    case 0
    then show ?thesis by (simp add: path_head_def)
  next
    case (Suc m)
    then have "replicate n (CHR ''/'') \<noteq> []" and "last (replicate n (CHR ''/'')) = CHR ''/''"
      by simp_all
    then show ?thesis by (rule path_head_ends_slash)
  qed
  then have "path_head (replicate n (CHR ''/'') @ name) = replicate n (CHR ''/'')"
    using path_head_slash_free [OF assms] by simp
  moreover have "set (replicate n (CHR ''/'')) \<subseteq> {CHR ''/''}"
    by auto
  ultimately show ?thesis
    by (simp add: dirname_def replicate_length_iff Let_def)
qed

lemma dirname_proper:
  assumes "CHR ''/'' \<notin> set name" and "d \<noteq> []" and "last d \<noteq> CHR ''/''"
  shows "dirname (d @ replicate (Suc n) (CHR ''/'') @ name) = d"
proof -
  let ?h = "d @ replicate (Suc n) (CHR ''/'')"
  have "path_head ?h = ?h"
    by (rule path_head_ends_slash) simp_all
  then have h: "path_head (?h @ name) = ?h"
    using path_head_slash_free [OF assms(1), of ?h] by simp
  from assms(2) have "last d \<in> set d" by (rule last_in_set)
  then have "last d \<in> set ?h" by simp
  with assms(3) have n: "\<not> set ?h \<subseteq> {CHR ''/''}" by blast
  have "rev ?h = replicate (Suc n) (CHR ''/'') @ rev d"
    by (simp add: replicate_append_same)
  moreover have "dropWhile (\<lambda>c. c = CHR ''/'') (replicate (Suc n) (CHR ''/'') @ rev d)
                   = dropWhile (\<lambda>c. c = CHR ''/'') (rev d)"
    by (rule dropWhile_append2) auto
  moreover have "dropWhile (\<lambda>c. c = CHR ''/'') (rev d) = rev d"
    using assms(2,3) by (cases d rule: rev_cases) auto
  ultimately have r: "rstrip_slash ?h = d"
    by (simp add: rstrip_slash_def del: replicate.simps)
  show ?thesis
    using h n r by (simp add: dirname_def replicate_length_iff Let_def del: replicate.simps)
qed

lemma same_chars_snoc: "set b \<subseteq> {c} \<Longrightarrow> b @ c # ext = replicate (Suc (length b)) c @ ext"
  by (induction b) auto

lemma same_chars_nonempty: "set zs \<subseteq> {c} \<Longrightarrow> zs \<noteq> [] \<Longrightarrow> \<exists>n. zs = replicate (Suc n) c"
proof (induction zs)
  case Nil
  then show ?case by simp
next
  case (Cons z zs)
  show ?case
  proof (cases "zs = []")
    case True
    with Cons.prems have "z # zs = replicate (Suc 0) c" by simp
    then show ?thesis by (rule exI)
  next
    case False
    with Cons obtain n where "zs = replicate (Suc n) c" by auto
    with Cons.prems have "z # zs = replicate (Suc (Suc n)) c" by simp
    then show ?thesis by (rule exI)
  qed
qed

lemma name_shape:
  "\<exists>base ext. (name = base @ ''.'' @ ext \<and> CHR ''.'' \<notin> set ext \<and> (\<exists>c\<in>set base. c \<noteq> CHR ''.''))
       \<or> (name = base \<and> (\<exists>k rest. base = replicate k (CHR ''.'') @ rest \<and> CHR ''.'' \<notin> set rest))"
proof (cases "CHR ''.'' \<in> set name")
  case False
  then have "name = replicate 0 (CHR ''.'') @ name \<and> CHR ''.'' \<notin> set name"
    by simp
  then have "\<exists>k rest. name = replicate k (CHR ''.'') @ rest \<and> CHR ''.'' \<notin> set rest"
    by (intro exI)
  then have "name = name \<and> (\<exists>k rest. name = replicate k (CHR ''.'') @ rest \<and> CHR ''.'' \<notin> set rest)"
    by simp
  then show ?thesis
    by (intro exI [of _ name] disjI2)
next
  case True
  from split_list_last [OF this] obtain b ext where s: "name = b @ CHR ''.'' # ext" "CHR ''.'' \<notin> set ext"
    by (elim exE conjE) (rule that)
  show ?thesis
  proof (cases "\<exists>c\<in>set b. c \<noteq> CHR ''.''")
    case True
    with s have "name = b @ ''.'' @ ext \<and> CHR ''.'' \<notin> set ext \<and> (\<exists>c\<in>set b. c \<noteq> CHR ''.'')"
      by simp
    then show ?thesis
      by (intro exI [of _ b] exI [of _ ext] disjI1)
  next
    case False
    then have "set b \<subseteq> {CHR ''.''}" by auto
    from same_chars_snoc [OF this, of ext] s
    have "name = replicate (Suc (length b)) (CHR ''.'') @ ext \<and> CHR ''.'' \<notin> set ext"
      by simp
    then have "\<exists>k rest. name = replicate k (CHR ''.'') @ rest \<and> CHR ''.'' \<notin> set rest"
      by (intro exI)
    then have "name = name \<and> (\<exists>k rest. name = replicate k (CHR ''.'') @ rest \<and> CHR ''.'' \<notin> set rest)"
      by simp
    then show ?thesis
      by (intro exI [of _ name] disjI2)
  qed
qed

lemma head_shape:
  assumes "h = [] \<or> last h = CHR ''/''"
  shows "\<exists>n. h = replicate n (CHR ''/'')
           \<or> (\<exists>d. d \<noteq> [] \<and> last d \<noteq> CHR ''/'' \<and> h = d @ replicate (Suc n) (CHR ''/''))"
proof (cases "set h \<subseteq> {CHR ''/''}")
  case True
  then have "h = replicate (length h) (CHR ''/'')"
    by (simp only: replicate_length_iff)
  then show ?thesis
    by (intro exI [of _ "length h"] disjI1)
next
  case False
  then have "\<exists>x\<in>set h. x \<noteq> CHR ''/''" by auto
  from split_list_last_prop [OF this] obtain ys x zs where
    s: "h = ys @ x # zs" "x \<noteq> CHR ''/''" "\<forall>z\<in>set zs. \<not> z \<noteq> CHR ''/''"
    by (elim exE conjE) (rule that)
  from s(3) have sub: "set zs \<subseteq> {CHR ''/''}" by auto
  have "zs \<noteq> []"
  proof
    assume "zs = []"
    with s(1) have "h \<noteq> [] \<and> last h = x" by simp
    with assms s(2) show False by simp
  qed
  from same_chars_nonempty [OF sub this] obtain n where n: "zs = replicate (Suc n) (CHR ''/'')"
    by (rule exE)
  have "ys @ x # zs = (ys @ [x]) @ zs"
    by simp
  with s(1) have "h = (ys @ [x]) @ zs"
    by (rule trans)
  with n have "h = (ys @ [x]) @ replicate (Suc n) (CHR ''/'')"
    by (rule subst)
  moreover have "ys @ [x] \<noteq> []" by simp
  moreover from s(2) have "last (ys @ [x]) \<noteq> CHR ''/''" by simp
  ultimately have "ys @ [x] \<noteq> [] \<and> last (ys @ [x]) \<noteq> CHR ''/'' \<and> h = (ys @ [x]) @ replicate (Suc n) (CHR ''/'')"
    by (intro conjI)
  then show ?thesis
    by (intro exI [of _ n] disjI2 exI [of _ "ys @ [x]"])
qed

lemma path_split:
  "\<exists>h name. p = h @ name \<and> CHR ''/'' \<notin> set name \<and> (h = [] \<or> last h = CHR ''/'')"
proof (cases "CHR ''/'' \<in> set p")
  case False
  then have "p = [] @ p \<and> CHR ''/'' \<notin> set p \<and> (([]::string) = [] \<or> last [] = CHR ''/'')" by simp
  then show ?thesis
    by (intro exI)
next
  case True
  from split_list_last [OF this] obtain ys zs where s: "p = ys @ CHR ''/'' # zs" "CHR ''/'' \<notin> set zs"
    by (elim exE conjE) (rule that)
  then have "p = (ys @ ''/'') @ zs \<and> CHR ''/'' \<notin> set zs \<and> (ys @ ''/'' = [] \<or> last (ys @ ''/'') = CHR ''/'')"
    by simp
  then show ?thesis
    by (intro exI)
qed

text \<open>
  Every path is of the shape the next theorem asks for: a head that is empty, made of
  slashes only, or a directory followed by slashes, and then a last component without a
  slash, whose extension either starts at its last dot or, when only dots come before
  that dot (or there is no dot), is empty.
\<close>

lemma every_path_has_shape:
  "\<exists>h name base ext n out_dir.
      p = h @ name
    \<and> CHR ''/'' \<notin> set name
    \<and> ((name = base @ ''.'' @ ext \<and> CHR ''.'' \<notin> set ext \<and> (\<exists>c\<in>set base. c \<noteq> CHR ''.''))
         \<or> (name = base \<and> (\<exists>k rest. base = replicate k (CHR ''.'') @ rest \<and> CHR ''.'' \<notin> set rest)))
    \<and> ((h = replicate n (CHR ''/'') \<and> out_dir = h)
         \<or> (\<exists>d. d \<noteq> [] \<and> last d \<noteq> CHR ''/'' \<and> h = d @ replicate (Suc n) (CHR ''/'')
                \<and> out_dir = d @ ''/''))"
proof -
  from path_split [of p] obtain h name where
    a: "p = h @ name" and b: "CHR ''/'' \<notin> set name" and c: "h = [] \<or> last h = CHR ''/''"
    by (elim exE conjE) (rule that)
  from name_shape [of name] obtain base ext where
    d: "(name = base @ ''.'' @ ext \<and> CHR ''.'' \<notin> set ext \<and> (\<exists>c\<in>set base. c \<noteq> CHR ''.''))
         \<or> (name = base \<and> (\<exists>k rest. base = replicate k (CHR ''.'') @ rest \<and> CHR ''.'' \<notin> set rest))"
    by (elim exE) (rule that)
  from head_shape [OF c] obtain n where
    e: "h = replicate n (CHR ''/'')
           \<or> (\<exists>d. d \<noteq> [] \<and> last d \<noteq> CHR ''/'' \<and> h = d @ replicate (Suc n) (CHR ''/''))"
    by (elim exE) (rule that)
  have "\<exists>out_dir. (h = replicate n (CHR ''/'') \<and> out_dir = h)
         \<or> (\<exists>d. d \<noteq> [] \<and> last d \<noteq> CHR ''/'' \<and> h = d @ replicate (Suc n) (CHR ''/'')
                \<and> out_dir = d @ ''/'')"
    using e
  proof
    assume "h = replicate n (CHR ''/'')"
    then have "h = replicate n (CHR ''/'') \<and> h = h" by simp
    then show ?thesis by (intro exI [of _ h] disjI1)
  next
    assume "\<exists>d. d \<noteq> [] \<and> last d \<noteq> CHR ''/'' \<and> h = d @ replicate (Suc n) (CHR ''/'')"
    then obtain d where "d \<noteq> [] \<and> last d \<noteq> CHR ''/'' \<and> h = d @ replicate (Suc n) (CHR ''/'')"
      by (rule exE)
    then have "d \<noteq> [] \<and> last d \<noteq> CHR ''/'' \<and> h = d @ replicate (Suc n) (CHR ''/'') \<and> d @ ''/'' = d @ ''/''"
      by simp
    then show ?thesis by (intro exI [of _ "d @ ''/''"] disjI2 exI [of _ d])
  qed
  then obtain out_dir where
    f: "(h = replicate n (CHR ''/'') \<and> out_dir = h)
         \<or> (\<exists>d. d \<noteq> [] \<and> last d \<noteq> CHR ''/'' \<and> h = d @ replicate (Suc n) (CHR ''/'')
                \<and> out_dir = d @ ''/'')"
    by (rule exE)
  from a b d f have "p = h @ name
    \<and> CHR ''/'' \<notin> set name
    \<and> ((name = base @ ''.'' @ ext \<and> CHR ''.'' \<notin> set ext \<and> (\<exists>c\<in>set base. c \<noteq> CHR ''.''))
         \<or> (name = base \<and> (\<exists>k rest. base = replicate k (CHR ''.'') @ rest \<and> CHR ''.'' \<notin> set rest)))
    \<and> ((h = replicate n (CHR ''/'') \<and> out_dir = h)
         \<or> (\<exists>d. d \<noteq> [] \<and> last d \<noteq> CHR ''/'' \<and> h = d @ replicate (Suc n) (CHR ''/'')
                \<and> out_dir = d @ ''/''))"
    by (simp only: simp_thms)
  then show ?thesis
    by (intro exI [of _ h] exI [of _ name] exI [of _ base] exI [of _ ext] exI [of _ n] exI [of _ out_dir])
qed

text \<open>
  Claim C10. Let the input path be \<open>h @ name\<close>, with \<open>name\<close> its last component and
  \<open>h\<close> everything up to the last slash: nothing or only slashes, or a directory \<open>d\<close>
  followed by one slash or more. Let \<open>base\<close> be the name without its extension: the
  part before the last dot, unless only dots come before it, and then the whole name.
  Called without an output directory, the converter starts the external command with
  the output path \<open>d/base.md\<close> (\<open>h @ base @ ''.md''\<close> when \<open>h\<close> holds no directory),
  which lies in the directory of the input.
\<close>

theorem convert_without_output_dir:
  assumes "CHR ''/'' \<notin> set name"
    and "(name = base @ ''.'' @ ext \<and> CHR ''.'' \<notin> set ext \<and> (\<exists>c\<in>set base. c \<noteq> CHR ''.''))
         \<or> (name = base \<and> (\<exists>k rest. base = replicate k (CHR ''.'') @ rest \<and> CHR ''.'' \<notin> set rest))"
    and "(h = replicate n (CHR ''/'') \<and> out_dir = h)
         \<or> (\<exists>d. d \<noteq> [] \<and> last d \<noteq> CHR ''/'' \<and> h = d @ replicate (Suc n) (CHR ''/'')
                \<and> out_dir = d @ ''/'')"
  shows "output_path_of (h @ name) None = out_dir @ base @ ''.md''
       \<and> take 2 (fst (convert_file_to_md run (h @ name) None))
           = [Print (Converting (h @ name) (out_dir @ base @ ''.md'')),
              RunProcess [''markitdown'', h @ name, ''-o'', out_dir @ base @ ''.md'']]"
proof -
  have st: "fst (splitext name) = base"
    using assms(2)
  proof
    assume a: "name = base @ ''.'' @ ext \<and> CHR ''.'' \<notin> set ext \<and> (\<exists>c\<in>set base. c \<noteq> CHR ''.'')"
    with assms(1) have "CHR ''/'' \<notin> set (base @ ''.'' @ ext)" by simp
    from splitext_proper [OF this] a show ?thesis by simp
  next
    assume "name = base \<and> (\<exists>k rest. base = replicate k (CHR ''.'') @ rest \<and> CHR ''.'' \<notin> set rest)"
    then obtain k rest where b: "name = base" "base = replicate k (CHR ''.'') @ rest" "CHR ''.'' \<notin> set rest"
      by blast
    with assms(1) have "CHR ''/'' \<notin> set (replicate k (CHR ''.'') @ rest)" by simp
    from splitext_dots [OF this b(3)] b show ?thesis by simp
  qed
  from assms(1) st have sf: "CHR ''/'' \<notin> set (base @ ''.md'')"
    using splitext_root_subset [of name] by auto
  then have nohead: "take 1 (base @ ''.md'') \<noteq> ''/''"
    by (cases base) auto
  have "h = [] \<or> last h = CHR ''/''"
    using assms(3)
  proof
    assume "h = replicate n (CHR ''/'') \<and> out_dir = h"
    then show ?thesis by (cases n) simp_all
  next
    assume "\<exists>d. d \<noteq> [] \<and> last d \<noteq> CHR ''/'' \<and> h = d @ replicate (Suc n) (CHR ''/'')
                \<and> out_dir = d @ ''/''"
    then obtain d where "h = d @ replicate (Suc n) (CHR ''/'')" by blast
    then have "last h = last (replicate (Suc n) (CHR ''/''))"
      by (simp del: replicate.simps)
    then show ?thesis by (simp del: replicate.simps)
  qed
  then have bn: "basename (h @ name) = name"
    by (rule basename_after_dir [OF assms(1)])
  have "path_join (dirname (h @ name)) (base @ ''.md'') = out_dir @ base @ ''.md''"
    using assms(3)
  proof
    assume a: "h = replicate n (CHR ''/'') \<and> out_dir = h"
    then have "dirname (h @ name) = h"
      using dirname_slashes [OF assms(1)] by simp
    moreover have "h = [] \<or> endswith h ''/''"
      using a by (cases n) (auto simp: endswith_slash)
    ultimately show ?thesis
      using a nohead by (auto simp: path_join_def)
  next
    assume "\<exists>d. d \<noteq> [] \<and> last d \<noteq> CHR ''/'' \<and> h = d @ replicate (Suc n) (CHR ''/'')
                \<and> out_dir = d @ ''/''"
    then obtain d where d: "d \<noteq> []" "last d \<noteq> CHR ''/''" "h = d @ replicate (Suc n) (CHR ''/'')"
      "out_dir = d @ ''/''"
      by blast
    have "dirname (h @ name) = d"
      using dirname_proper [OF assms(1) d(1,2)] d(3) by simp
    then show ?thesis
      using d nohead by (simp add: path_join_def endswith_slash)
  qed
  then have o: "output_path_of (h @ name) None = out_dir @ base @ ''.md''"
    by (simp add: output_path_of_def Let_def bn st)
  have "take 2 (fst (convert_file_to_md run (h @ name) None))
     = [Print (Converting (h @ name) (output_path_of (h @ name) None)),
        RunProcess [''markitdown'', h @ name, ''-o'', output_path_of (h @ name) None]]"
    by (simp add: convert_file_to_md_def Let_def split: proc_outcome.splits)
  with o show ?thesis by simp
qed

theorem convert_without_output_dir_witness:
  "output_path_of ''/home/u/docs//report.v2.pdf'' None = ''/home/u/docs/report.v2.md''
   \<and> take 2 (fst (convert_file_to_md (\<lambda>cmd. Exited 0) ''/home/u/docs//report.v2.pdf'' None))
       = [Print (Converting ''/home/u/docs//report.v2.pdf'' ''/home/u/docs/report.v2.md''),
          RunProcess [''markitdown'', ''/home/u/docs//report.v2.pdf'', ''-o'', ''/home/u/docs/report.v2.md'']]
   \<and> output_path_of ''.bashrc'' None = ''.bashrc.md''
   \<and> output_path_of ''/notes'' None = ''/notes.md''"
proof -
  have n1: "CHR ''/'' \<notin> set ''report.v2.pdf''" by simp
  have s1: "(''report.v2.pdf'' = ''report.v2'' @ ''.'' @ ''pdf'' \<and> CHR ''.'' \<notin> set ''pdf''
              \<and> (\<exists>c\<in>set ''report.v2''. c \<noteq> CHR ''.''))
         \<or> (''report.v2.pdf'' = ''report.v2''
              \<and> (\<exists>k rest. ''report.v2'' = replicate k (CHR ''.'') @ rest \<and> CHR ''.'' \<notin> set rest))"
    by simp
  have "''/home/u/docs'' \<noteq> [] \<and> last ''/home/u/docs'' \<noteq> CHR ''/''
          \<and> ''/home/u/docs//'' = ''/home/u/docs'' @ replicate (Suc 1) (CHR ''/'')
          \<and> ''/home/u/docs/'' = ''/home/u/docs'' @ ''/''"
    by simp
  then have d1: "(''/home/u/docs//'' = replicate 1 (CHR ''/'') \<and> ''/home/u/docs/'' = ''/home/u/docs//'')
         \<or> (\<exists>d. d \<noteq> [] \<and> last d \<noteq> CHR ''/'' \<and> ''/home/u/docs//'' = d @ replicate (Suc 1) (CHR ''/'')
                \<and> ''/home/u/docs/'' = d @ ''/'')"
    by blast
  have n2: "CHR ''/'' \<notin> set ''.bashrc''" by simp
  have "''.bashrc'' = replicate 1 (CHR ''.'') @ ''bashrc'' \<and> CHR ''.'' \<notin> set ''bashrc''"
    by simp
  then have s2: "(''.bashrc'' = ''.bashrc'' @ ''.'' @ [] \<and> CHR ''.'' \<notin> set [] \<and> (\<exists>c\<in>set ''.bashrc''. c \<noteq> CHR ''.''))
         \<or> (''.bashrc'' = ''.bashrc''
              \<and> (\<exists>k rest. ''.bashrc'' = replicate k (CHR ''.'') @ rest \<and> CHR ''.'' \<notin> set rest))"
    by blast
  have d2: "([] = replicate 0 (CHR ''/'') \<and> [] = ([]::string))
         \<or> (\<exists>d. d \<noteq> [] \<and> last d \<noteq> CHR ''/'' \<and> [] = d @ replicate (Suc 0) (CHR ''/'') \<and> [] = d @ ''/'')"
    by simp
  have n3: "CHR ''/'' \<notin> set ''notes''" by simp
  have "''notes'' = replicate 0 (CHR ''.'') @ ''notes'' \<and> CHR ''.'' \<notin> set ''notes''"
    by simp
  then have s3: "(''notes'' = ''notes'' @ ''.'' @ [] \<and> CHR ''.'' \<notin> set [] \<and> (\<exists>c\<in>set ''notes''. c \<noteq> CHR ''.''))
         \<or> (''notes'' = ''notes''
              \<and> (\<exists>k rest. ''notes'' = replicate k (CHR ''.'') @ rest \<and> CHR ''.'' \<notin> set rest))"
    by blast
  have d3: "(''/'' = replicate 1 (CHR ''/'') \<and> ''/'' = ''/'')
         \<or> (\<exists>d. d \<noteq> [] \<and> last d \<noteq> CHR ''/'' \<and> ''/'' = d @ replicate (Suc 1) (CHR ''/'') \<and> ''/'' = d @ ''/'')"
    by simp
  show ?thesis
    using convert_without_output_dir [OF n1 s1 d1, of "\<lambda>cmd. Exited 0"]
      convert_without_output_dir [OF n2 s2 d2, of "\<lambda>cmd. Exited 0"]
      convert_without_output_dir [OF n3 s3 d3, of "\<lambda>cmd. Exited 0"]
    by simp
qed

section \<open>Selection\<close>

lemma lower_zero: "lower ''0'' = ''0''"
  by (simp add: lower_def lower_char_def)

lemma lower_all: "lower ''all'' \<noteq> ''0''"
  by (simp add: lower_def)

lemma parse_all: "parse_indices ''all'' = None"
  by (simp add: parse_indices_def py_int_def strip_def is_space_def unsigned_int_def is_digit_def)

lemma int_tokens_typed:
  "int_tokens toks = map_option (map (\<lambda>n. n - 1)) (typed_numbers_of toks)"
  by (induction toks) (auto split: option.splits)

lemma parse_indices_typed:
  "parse_indices selection = map_option (map (\<lambda>n. n - 1)) (typed_numbers selection)"
  by (simp add: parse_indices_def typed_numbers_def int_tokens_typed)

lemma pick_typed:
  "pick files (map (\<lambda>n. n - 1) ns)
     = map (\<lambda>n. files ! (nat n - 1)) (filter (\<lambda>n. 1 \<le> n \<and> n \<le> int (length files)) ns)"
proof (induction ns)
  case Nil
  show ?case by (simp add: pick_def)
next
  case (Cons n ns)
  have "nat (n - 1) = nat n - 1" by simp
  with Cons show ?case
    by (auto simp: pick_def)
qed

lemma select_loop_nonempty:
  "select_loop files answers = (ev, Inr sel) \<Longrightarrow> files \<noteq> [] \<Longrightarrow> sel \<noteq> []"
proof (induction answers arbitrary: ev)
  case Nil
  then show ?case by simp
next
  case (Cons r rs)
  then show ?case
    by (cases "select_loop files rs") (auto simp: Let_def split: sum.splits if_splits option.splits)
qed

text \<open>
  Claim C3, as amended. The answer \<open>0\<close> selects the whole candidate list in its
  order. The word \<open>all\<close> is no such answer: it is not a number, so the selector
  reports malformed input and asks again.
\<close>

theorem zero_selects_all:
  assumes "table_rows stat 1 files = Inr rows"
  shows "select_loop files (Answer ''0'' # rest) = ([], Inr files)
       \<and> snd (select_ppt_files stat files (Answer ''0'' # rest)) = Inr files
       \<and> select_loop files (Answer ''all'' # rest)
           = prepend [Say MalformedSelection] (select_loop files rest)"
  using assms
  by (simp add: select_ppt_files_def ask_def lower_zero lower_all parse_all)

theorem zero_selects_all_witness:
  "table_rows (\<lambda>f. Inr 2048) 1 [(''d'', ''a.pptx''), (''d'', ''b.pptx'')]
     = Inr [(1, ''a.pptx'', 2048), (2, ''b.pptx'', 2048)]
   \<and> select_ppt_files (\<lambda>f. Inr 2048) [(''d'', ''a.pptx''), (''d'', ''b.pptx'')] [Answer ''0'']
     = ([Say (FileTable [(1, ''a.pptx'', 2048), (2, ''b.pptx'', 2048)])],
        Inr [(''d'', ''a.pptx''), (''d'', ''b.pptx'')])"
proof -
  have t: "table_rows (\<lambda>f. Inr 2048) 1 [(''d'', ''a.pptx''), (''d'', ''b.pptx'')]
     = Inr [(1, ''a.pptx'', 2048), (2, ''b.pptx'', 2048)]"
    by simp
  show ?thesis
    using t zero_selects_all [OF t, of "[]"]
    by (simp add: select_ppt_files_def)
qed

text \<open>
  Claim C3 as stated fails for \<open>all\<close>: with two candidates, the answers \<open>all\<close>
  then \<open>1\<close> select the first candidate only, and \<open>all\<close> as the last answer before
  the end of the input selects nothing.
\<close>

theorem all_word_counterexample:
  "select_loop [(''d'', ''a.pptx''), (''d'', ''b.pptx'')] [Answer ''all'', Answer ''1'']
     = ([Say MalformedSelection], Inr [(''d'', ''a.pptx'')])
   \<and> select_loop [(''d'', ''a.pptx''), (''d'', ''b.pptx'')] [Answer ''all'']
     = ([Say MalformedSelection], Inl (Exception ''EOFError''))"
  by (simp add: ask_def lower_def lower_char_def parse_indices_def py_int_def strip_def is_space_def
      unsigned_int_def is_digit_def digit_value_def pick_def)

text \<open>
  Claim C4, as amended. For every answer other than the select-all answer \<open>0\<close> whose
  tokens are all numbers, the numbers outside \<open>1..N\<close> are dropped, the candidates at
  the remaining numbers are returned in the order typed, repetitions included, and when
  nothing remains the selector reports it and asks again.
\<close>

theorem index_selection:
  assumes "lower selection \<noteq> ''0''"
    and "typed_numbers selection = Some ns"
  shows "select_loop files (Answer selection # rest) =
           (let chosen = map (\<lambda>n. files ! (nat n - 1))
                           (filter (\<lambda>n. 1 \<le> n \<and> n \<le> int (length files)) ns)
            in if chosen = [] then prepend [Say NothingValidSelected] (select_loop files rest)
               else ([], Inr chosen))"
  using assms
  by (simp add: ask_def parse_indices_typed pick_typed Let_def)

lemma typed_13: "typed_numbers ''3, 1,3,9,0,-2'' = Some [3, 1, 3, 9, 0, -2]"
  by (simp add: typed_numbers_def py_int_def strip_def is_space_def unsigned_int_def is_digit_def digit_value_def)

theorem index_selection_witness:
  "lower ''3, 1,3,9,0,-2'' \<noteq> ''0'' \<and> typed_numbers ''3, 1,3,9,0,-2'' = Some [3, 1, 3, 9, 0, -2]
   \<and> select_loop [(''d'', ''a.pptx''), (''d'', ''b.pptx''), (''d'', ''c.pptx'')] [Answer ''3, 1,3,9,0,-2'']
       = ([], Inr [(''d'', ''c.pptx''), (''d'', ''a.pptx''), (''d'', ''c.pptx'')])
   \<and> typed_numbers ''5'' = Some [5]
   \<and> select_loop [(''d'', ''a.pptx''), (''d'', ''b.pptx''), (''d'', ''c.pptx'')] [Answer ''5'', Answer ''2'']
       = ([Say NothingValidSelected], Inr [(''d'', ''b.pptx'')])"
proof -
  have l: "lower ''3, 1,3,9,0,-2'' \<noteq> ''0''" "lower ''5'' \<noteq> ''0''" "lower ''2'' \<noteq> ''0''"
    by (simp_all add: lower_def lower_char_def)
  have t5: "typed_numbers ''5'' = Some [5]" "typed_numbers ''2'' = Some [2]"
    by (simp_all add: typed_numbers_def py_int_def strip_def is_space_def unsigned_int_def is_digit_def digit_value_def)
  show ?thesis
    using l typed_13 t5
      index_selection [OF l(1) typed_13, of "[(''d'', ''a.pptx''), (''d'', ''b.pptx''), (''d'', ''c.pptx'')]" "[]"]
      index_selection [OF l(2) t5(1), of "[(''d'', ''a.pptx''), (''d'', ''b.pptx''), (''d'', ''c.pptx'')]" "[Answer ''2'']"]
      index_selection [OF l(3) t5(2), of "[(''d'', ''a.pptx''), (''d'', ''b.pptx''), (''d'', ''c.pptx'')]" "[]"]
    by simp
qed

text \<open>
  Claim C4 as stated fails for the answer \<open>0\<close>: it is one number, outside \<open>1..N\<close>,
  and instead of dropping it and asking again the selector returns every candidate.
\<close>

theorem zero_index_counterexample:
  "typed_numbers ''0'' = Some [0]
   \<and> select_loop [(''d'', ''a.pptx''), (''d'', ''b.pptx'')] [Answer ''0'']
       = ([], Inr [(''d'', ''a.pptx''), (''d'', ''b.pptx'')])"
  by (simp add: ask_def lower_def lower_char_def typed_numbers_def py_int_def strip_def is_space_def
      unsigned_int_def is_digit_def digit_value_def)

section \<open>One conversion by the automation interface\<close>

lemma console_print_events:
  "fst (console_print markup m) = [Say m] \<or> fst (console_print markup m) = []"
  by (simp add: console_print_def split: option.splits)


lemma report_and_raise_events:
  "fst (report_and_raise env name e) = [] \<or> (\<exists>m. fst (report_and_raise env name e) = [Say m])"
  by (auto simp: report_and_raise_def console_print_def split: py_exn.splits option.splits)

lemma no_handle_no_quit:
  assumes "create_object c = Some e"
  shows "ComQuit \<notin> set (fst (convert_pptx_to_pdf env c pptx_path output_folder))
       \<and> snd (convert_pptx_to_pdf env c pptx_path output_folder)
           = Inl (snd (report_and_raise env (snd (resolve_file env pptx_path)) e))"
proof -
  obtain evr e' where r: "report_and_raise env (snd (resolve_file env pptx_path)) e = (evr, e')"
    by (cases "report_and_raise env (snd (resolve_file env pptx_path)) e")
  with report_and_raise_events [of env "snd (resolve_file env pptx_path)" e]
  have "ComQuit \<notin> set evr" by auto
  with assms r show ?thesis
    by (simp add: convert_pptx_to_pdf_def convert_body_def Let_def)
qed

text \<open>
  Claim C7. Once \<open>CreateObject\<close> has returned a handle, whatever the later calls do
  (return or raise, \<open>Quit\<close> itself included) and whatever the console does with the
  report, the calls of one conversion start with \<open>CreateObject\<close>, end with \<open>Quit\<close>,
  and \<open>Quit\<close> is called exactly once.
\<close>

theorem handle_released_on_every_path:
  assumes "create_object c = None"
  shows "(let ev = fst (convert_pptx_to_pdf env c pptx_path output_folder)
          in hd ev = ComCreate \<and> last ev = ComQuit \<and> length (filter (\<lambda>e. e = ComQuit) ev) = 1)"
proof -
  obtain ev result acquired where
    b: "convert_body c (resolve_file env pptx_path)
          (resolve_dir env output_folder, stem (snd (resolve_file env pptx_path)) @ ''.pdf'')
        = (ev, result, acquired)"
    by (cases "convert_body c (resolve_file env pptx_path)
          (resolve_dir env output_folder, stem (snd (resolve_file env pptx_path)) @ ''.pdf'')")
  from b assms have a: "acquired" and h: "hd ev = ComCreate" and n: "ev \<noteq> []"
    and q: "ComQuit \<notin> set ev"
    by (auto simp: convert_body_def Let_def split: option.splits)
  obtain reported final where
    r: "(case result of
           Inl e \<Rightarrow> (case report_and_raise env (snd (resolve_file env pptx_path)) e of
                       (evr, e') \<Rightarrow> (evr, Inl e'))
         | Inr pdf \<Rightarrow> ([], Inr pdf)) = (reported, final)"
    by (cases "(case result of
           Inl e \<Rightarrow> (case report_and_raise env (snd (resolve_file env pptx_path)) e of
                       (evr, e') \<Rightarrow> (evr, Inl e'))
         | Inr pdf \<Rightarrow> ([], Inr pdf))")
  have "reported = [] \<or> (\<exists>m. reported = [Say m])"
  proof (cases result)
    case (Inl e)
    with r report_and_raise_events [of env "snd (resolve_file env pptx_path)" e] show ?thesis
      by (cases "report_and_raise env (snd (resolve_file env pptx_path)) e") auto
  next
    case (Inr pdf)
    with r show ?thesis by simp
  qed
  then have rq: "ComQuit \<notin> set reported" by auto
  have "fst (convert_pptx_to_pdf env c pptx_path output_folder) = ev @ reported @ [ComQuit]"
    using b r a by (simp add: convert_pptx_to_pdf_def Let_def)
  moreover from q rq have "filter (\<lambda>e. e = ComQuit) ev = []" "filter (\<lambda>e. e = ComQuit) reported = []"
    by (auto simp: filter_empty_conv)
  ultimately show ?thesis
    using h n by (simp add: Let_def)
qed

theorem handle_released_on_every_path_witness:
  "create_object (com_ok\<lparr>open_without_window := Some KeyboardInterrupt,
                           open_plain := Some (Exception ''cannot open''),
                           quit_app := Some (Exception ''gone'')\<rparr>) = None
   \<and> (let ev = fst (convert_pptx_to_pdf demo_ppt_env
                      (com_ok\<lparr>open_without_window := Some KeyboardInterrupt,
                              open_plain := Some (Exception ''cannot open''),
                              quit_app := Some (Exception ''gone'')\<rparr>)
                      (''C:/work'', ''a.pptx'') ''C:/out'')
        in hd ev = ComCreate \<and> last ev = ComQuit \<and> length (filter (\<lambda>e. e = ComQuit) ev) = 1)
   \<and> convert_pptx_to_pdf demo_ppt_env
         (com_ok\<lparr>open_without_window := Some KeyboardInterrupt,
                 open_plain := Some (Exception ''cannot open''),
                 quit_app := Some (Exception ''gone'')\<rparr>)
         (''C:/work'', ''a.pptx'') ''C:/out''
       = ([ComCreate, ComSetVisible, ComOpen (''C:/work'', ''a.pptx'') False,
           ComOpen (''C:/work'', ''a.pptx'') True,
           Say (ConversionError ''a.pptx'' ''cannot open''), ComQuit],
          Inl (Exception ''cannot open''))"
proof -
  have c: "create_object (com_ok\<lparr>open_without_window := Some KeyboardInterrupt,
                           open_plain := Some (Exception ''cannot open''),
                           quit_app := Some (Exception ''gone'')\<rparr>) = None"
    by (simp add: com_ok_def)
  have r: "convert_pptx_to_pdf demo_ppt_env
         (com_ok\<lparr>open_without_window := Some KeyboardInterrupt,
                 open_plain := Some (Exception ''cannot open''),
                 quit_app := Some (Exception ''gone'')\<rparr>)
         (''C:/work'', ''a.pptx'') ''C:/out''
       = ([ComCreate, ComSetVisible, ComOpen (''C:/work'', ''a.pptx'') False,
           ComOpen (''C:/work'', ''a.pptx'') True,
           Say (ConversionError ''a.pptx'' ''cannot open''), ComQuit],
          Inl (Exception ''cannot open''))"
    by code_simp
  show ?thesis
    using c r handle_released_on_every_path [OF c, of demo_ppt_env "(''C:/work'', ''a.pptx'')" "''C:/out''"]
    by simp
qed

section \<open>The batch loops\<close>






















section \<open>Whole runs\<close>


lemma snd_prepend: "snd (prepend ev x) = snd x"
  by (cases x) simp

lemma console_print_no_com: "filter is_com (fst (console_print markup m)) = []"
  using console_print_events [of markup m] by auto


lemma ppt_main_no_candidates:
  assumes "ask_default (cwd env) (directory_answer s) = Inr d"
    and "get_ppt_files (ppt_path_state env d) = []"
  shows "ppt_main env s
           = (case console_markup env (NoPptxFound d) of
                None \<Rightarrow> ([Say Title, Say (NoPptxFound d)], Returned)
              | Some e \<Rightarrow> ([Say Title], Raised e))"
  using assms by (simp add: ppt_main_def console_print_def split: option.splits)









text \<open>
  Claim C6, as amended. In the presentation tool a keyboard interrupt that leaves
  \<open>main\<close> is caught at the outermost scope: the cancellation notice is printed after
  what the run has shown, no stack trace is shown, and the process ends with status 0. The
  Markdown tool has no handler at its outermost scope: a keyboard interrupt that leaves
  \<open>main\<close> ends the process with a non-zero status and a stack trace, and no notice.
\<close>

theorem interrupt_handling:
  assumes "missing_deps env = []"
    and "ppt_main env s = (ev, Raised KeyboardInterrupt)"
    and "md_main menv ms = (mev, Raised KeyboardInterrupt)"
  shows "ppt_program env s = \<lparr>shown = ev @ [Say InterruptNotice], status = ExitSuccess, stack_trace = False\<rparr>
       \<and> md_program menv ms = \<lparr>shown = mev, status = ExitFailure, stack_trace = True\<rparr>"
  using assms by (simp add: ppt_program_def md_program_def)

theorem interrupt_handling_witness:
  "missing_deps demo_ppt_env = []
   \<and> ppt_main demo_ppt_env (demo_ppt_script\<lparr>confirm_answer := CtrlC\<rparr>)
       = ([Say Title, Say (FileTable [(1, ''A.PPTX'', 2048), (2, ''b.pptx'', 2048)]),
           Say SelectedHeader, Say (SelectedItem 1 ''A.PPTX''), Say (SelectedItem 2 ''b.pptx'')],
          Raised KeyboardInterrupt)
   \<and> md_main demo_md_env (demo_md_script\<lparr>start_answer := CtrlC\<rparr>)
       = (Print Banner # format_menu
            @ [Makedirs ''/docs/markdown_output'', Listdir ''/docs'', Print (Found 2 NamePdf)],
          Raised KeyboardInterrupt)
   \<and> ppt_program demo_ppt_env (demo_ppt_script\<lparr>confirm_answer := CtrlC\<rparr>)
       = \<lparr>shown = [Say Title, Say (FileTable [(1, ''A.PPTX'', 2048), (2, ''b.pptx'', 2048)]),
                   Say SelectedHeader, Say (SelectedItem 1 ''A.PPTX''), Say (SelectedItem 2 ''b.pptx''),
                   Say InterruptNotice],
          status = ExitSuccess, stack_trace = False\<rparr>
   \<and> md_program demo_md_env (demo_md_script\<lparr>start_answer := CtrlC\<rparr>)
       = \<lparr>shown = Print Banner # format_menu
                     @ [Makedirs ''/docs/markdown_output'', Listdir ''/docs'', Print (Found 2 NamePdf)],
          status = ExitFailure, stack_trace = True\<rparr>"
proof -
  have d: "missing_deps demo_ppt_env = []"
    by (simp add: demo_ppt_env_def)
  have p: "ppt_main demo_ppt_env (demo_ppt_script\<lparr>confirm_answer := CtrlC\<rparr>)
       = ([Say Title, Say (FileTable [(1, ''A.PPTX'', 2048), (2, ''b.pptx'', 2048)]),
           Say SelectedHeader, Say (SelectedItem 1 ''A.PPTX''), Say (SelectedItem 2 ''b.pptx'')],
          Raised KeyboardInterrupt)"
    by code_simp
  have m: "md_main demo_md_env (demo_md_script\<lparr>start_answer := CtrlC\<rparr>)
       = (Print Banner # format_menu
            @ [Makedirs ''/docs/markdown_output'', Listdir ''/docs'', Print (Found 2 NamePdf)],
          Raised KeyboardInterrupt)"
    by code_simp
  show ?thesis
    using d p m interrupt_handling [OF d p m] by simp
qed

text \<open>
  Claim C6 as stated fails in both tools: interrupted at its first prompt, the
  presentation tool prints the notice and ends with status 0, not a non-zero status; the
  Markdown tool prints no notice and ends with a stack trace.
\<close>

theorem interrupt_counterexample:
  "ppt_program demo_ppt_env (demo_ppt_script\<lparr>directory_answer := CtrlC\<rparr>)
     = \<lparr>shown = [Say Title, Say InterruptNotice], status = ExitSuccess, stack_trace = False\<rparr>
   \<and> md_program demo_md_env (demo_md_script\<lparr>input_dir_answer := CtrlC\<rparr>)
     = \<lparr>shown = [Print Banner], status = ExitFailure, stack_trace = True\<rparr>"
  by code_simp

lemma md_no_listing_no_command:
  assumes "st = Missing \<or> st = NotADirectory"
    and "ask_default (script_dir menv) (input_dir_answer ms) = Inr md"
    and "md_path_state menv md = st"
  shows "\<exists>mev e. md_main menv ms = (mev, Raised e) \<and> run_commands mev = []"
proof -
  from assms(1,3) have l: "\<exists>e. os_listdir (md_path_state menv md) = Inl e"
    by (auto simp: os_listdir_def)
  then have sc: "\<exists>e. md_scan_and_convert menv ms md fmt out = ([Listdir md], Raised e)" for fmt out
    by (auto simp: md_scan_and_convert_def)
  have pr: "\<exists>ev e. md_prepare_output menv ms md fmt = (ev, Raised e) \<and> run_commands ev = []" for fmt
  proof (cases "ask_default (path_join md ''markdown_output'') (output_dir_answer ms)")
    case (Inl e)
    then show ?thesis by (simp add: md_prepare_output_def)
  next
    case (Inr out)
    show ?thesis
    proof (cases "makedirs_result menv out")
      case None
      with Inr sc [of fmt out] show ?thesis by (auto simp: md_prepare_output_def)
    next
      case (Some e)
      with Inr show ?thesis by (simp add: md_prepare_output_def)
    qed
  qed
  show ?thesis
  proof (cases "ask_default ''1'' (choice_answer ms)")
    case (Inl e)
    with assms(2) show ?thesis by (simp add: md_main_def format_menu_def)
  next
    case (Inr choice)
    show ?thesis
    proof (cases "format_choices choice")
      case None
      with Inr assms(2) show ?thesis by (simp add: md_main_def format_menu_def)
    next
      case (Some fmt)
      show ?thesis
      proof (cases "choice = ''4''")
        case False
        from pr [of fmt] obtain ev e where "md_prepare_output menv ms md fmt = (ev, Raised e)" "run_commands ev = []"
          by blast
        with False Some Inr assms(2) show ?thesis
          by (simp add: md_main_def format_menu_def)
      next
        case True
        show ?thesis
        proof (cases "ask (extensions_answer ms)")
          case (Inl e)
          with True Some Inr assms(2) show ?thesis by (simp add: md_main_def format_menu_def)
        next
          case (Inr extensions_input)
          from pr [of "fmt\<lparr>fmt_ext := custom_extensions extensions_input\<rparr>"] obtain ev e where
            "md_prepare_output menv ms md (fmt\<lparr>fmt_ext := custom_extensions extensions_input\<rparr>) = (ev, Raised e)"
            "run_commands ev = []"
            by blast
          with True Some Inr \<open>ask_default ''1'' (choice_answer ms) = Inr choice\<close> assms(2) show ?thesis
            by (simp add: md_main_def format_menu_def)
        qed
      qed
    qed
  qed
qed

text \<open>
  Claim C5, as amended. Let the input path be missing or not a directory when it is
  listed. The presentation tool's lister raises nothing and returns the empty list: when
  the console can print the typed path, the tool reports that no presentation was found
  and ends normally; when it cannot, what the console raises leaves \<open>main\<close>; either
  way the output directory is not created and nothing is converted. In the Markdown tool,
  once the prompts are answered and the output directory is created, the listing raises
  the error of the operating system out of \<open>main\<close>: the run consists of the banner,
  the menu, the creation of the output directory and the listing, it starts no command,
  and the process ends with a non-zero status and a stack trace.
\<close>

theorem missing_directory_behaviour:
  assumes "st = Missing \<or> st = NotADirectory"
    and "missing_deps env = []"
    and "ask_default (cwd env) (directory_answer s) = Inr d"
    and "ppt_path_state env d = st"
    and "ask_default (script_dir menv) (input_dir_answer ms) = Inr md"
    and "md_path_state menv md = st"
    and "ask_default ''1'' (choice_answer ms) = Inr choice"
    and "format_choices choice = Some fmt"
    and "choice = ''4'' \<longrightarrow> (\<exists>x. ask (extensions_answer ms) = Inr x)"
    and "ask_default (path_join md ''markdown_output'') (output_dir_answer ms) = Inr out"
    and "makedirs_result menv out = None"
  shows "get_ppt_files st = []
       \<and> (console_markup env (NoPptxFound d) = None \<longrightarrow>
            ppt_program env s
              = \<lparr>shown = [Say Title, Say (NoPptxFound d)], status = ExitSuccess, stack_trace = False\<rparr>)
       \<and> (\<forall>e. console_markup env (NoPptxFound d) = Some e \<longrightarrow> ppt_main env s = ([Say Title], Raised e))
       \<and> (\<forall>x\<in>set (fst (ppt_main env s)). \<exists>m. x = Say m)
       \<and> os_listdir st = Inl (Exception (if st = Missing then ''FileNotFoundError'' else ''NotADirectoryError''))
       \<and> md_main menv ms
           = (Print Banner # format_menu @ [Makedirs out, Listdir md],
              Raised (Exception (if st = Missing then ''FileNotFoundError'' else ''NotADirectoryError'')))
       \<and> md_program menv ms
           = \<lparr>shown = Print Banner # format_menu @ [Makedirs out, Listdir md],
              status = ExitFailure, stack_trace = True\<rparr>"
proof -
  from assms(1) have g: "get_ppt_files st = []"
    by (auto simp: get_ppt_files_def glob_pptx_def)
  with assms(4) have g': "get_ppt_files (ppt_path_state env d) = []"
    by simp
  note pm = ppt_main_no_candidates [OF assms(3) g']
  have p1: "console_markup env (NoPptxFound d) = None \<longrightarrow>
            ppt_program env s
              = \<lparr>shown = [Say Title, Say (NoPptxFound d)], status = ExitSuccess, stack_trace = False\<rparr>"
    using pm assms(2) by (simp add: ppt_program_def)
  have p2: "\<forall>e. console_markup env (NoPptxFound d) = Some e \<longrightarrow> ppt_main env s = ([Say Title], Raised e)"
    using pm by simp
  have p3: "\<forall>x\<in>set (fst (ppt_main env s)). \<exists>m. x = Say m"
    using pm by (cases "console_markup env (NoPptxFound d)") simp_all
  let ?e = "Exception (if st = Missing then ''FileNotFoundError'' else ''NotADirectoryError'')"
  from assms(1) have l: "os_listdir st = Inl ?e"
    by (auto simp: os_listdir_def)
  with assms(6) have sc: "md_scan_and_convert menv ms md f' out = ([Listdir md], Raised ?e)" for f'
    by (simp add: md_scan_and_convert_def)
  with assms(10,11) have pr: "md_prepare_output menv ms md f' = ([Makedirs out, Listdir md], Raised ?e)" for f'
    by (simp add: md_prepare_output_def)
  have mm: "md_main menv ms = (Print Banner # format_menu @ [Makedirs out, Listdir md], Raised ?e)"
  proof (cases "choice = ''4''")
    case False
    with assms(5,7,8) pr show ?thesis
      by (simp add: md_main_def)
  next
    case True
    with assms(9) obtain x where "ask (extensions_answer ms) = Inr x"
      by blast
    with True assms(5,7,8) pr show ?thesis
      by (simp add: md_main_def)
  qed
  then have mp: "md_program menv ms
           = \<lparr>shown = Print Banner # format_menu @ [Makedirs out, Listdir md],
              status = ExitFailure, stack_trace = True\<rparr>"
    by (simp add: md_program_def)
  from g p1 p2 p3 l mm mp show ?thesis
    by (intro conjI)
qed

theorem missing_directory_behaviour_witness:
  "ppt_path_state (demo_ppt_env\<lparr>cwd := ''C:/nowhere''\<rparr>) ''C:/nowhere'' = Missing
   \<and> md_path_state (demo_md_env\<lparr>script_dir := ''/nowhere''\<rparr>) ''/nowhere'' = Missing
   \<and> get_ppt_files Missing = []
   \<and> ppt_program (demo_ppt_env\<lparr>cwd := ''C:/nowhere''\<rparr>) demo_ppt_script
       = \<lparr>shown = [Say Title, Say (NoPptxFound ''C:/nowhere'')], status = ExitSuccess, stack_trace = False\<rparr>
   \<and> ppt_main (demo_ppt_env\<lparr>cwd := ''C:/x[/b]'',
                         console_markup := (\<lambda>m. if m = NoPptxFound ''C:/x[/b]''
                                                 then Some (Exception ''MarkupError'') else None)\<rparr>)
         demo_ppt_script
       = ([Say Title], Raised (Exception ''MarkupError''))
   \<and> md_main (demo_md_env\<lparr>script_dir := ''/nowhere''\<rparr>)
         (demo_md_script\<lparr>output_dir_answer := Answer (Some ''/out'')\<rparr>)
       = (Print Banner # format_menu @ [Makedirs ''/out'', Listdir ''/nowhere''],
          Raised (Exception ''FileNotFoundError''))
   \<and> md_program (demo_md_env\<lparr>script_dir := ''/nowhere''\<rparr>)
         (demo_md_script\<lparr>output_dir_answer := Answer (Some ''/out'')\<rparr>)
       = \<lparr>shown = Print Banner # format_menu @ [Makedirs ''/out'', Listdir ''/nowhere''],
          status = ExitFailure, stack_trace = True\<rparr>"
proof -
  have st: "Missing = Missing \<or> Missing = NotADirectory"
    by simp
  have dep: "missing_deps (demo_ppt_env\<lparr>cwd := ''C:/nowhere''\<rparr>) = []"
    by (simp add: demo_ppt_env_def)
  have a1: "ask_default (cwd (demo_ppt_env\<lparr>cwd := ''C:/nowhere''\<rparr>)) (directory_answer demo_ppt_script)
              = Inr ''C:/nowhere''"
    by (simp add: ask_default_def ask_def demo_ppt_script_def)
  have p1: "ppt_path_state (demo_ppt_env\<lparr>cwd := ''C:/nowhere''\<rparr>) ''C:/nowhere'' = Missing"
    by (simp add: demo_ppt_env_def)
  have a2: "ask_default (script_dir (demo_md_env\<lparr>script_dir := ''/nowhere''\<rparr>))
              (input_dir_answer (demo_md_script\<lparr>output_dir_answer := Answer (Some ''/out'')\<rparr>))
              = Inr ''/nowhere''"
    by (simp add: ask_default_def ask_def demo_md_script_def)
  have p2: "md_path_state (demo_md_env\<lparr>script_dir := ''/nowhere''\<rparr>) ''/nowhere'' = Missing"
    by (simp add: demo_md_env_def)
  have a3: "ask_default ''1'' (choice_answer (demo_md_script\<lparr>output_dir_answer := Answer (Some ''/out'')\<rparr>))
              = Inr ''1''"
    by (simp add: ask_default_def ask_def demo_md_script_def)
  have a4: "format_choices ''1'' = Some \<lparr>fmt_label = NamePdf, fmt_ext = [''.pdf'']\<rparr>"
    by (simp add: format_choices_def)
  have a5: "''1'' = ''4'' \<longrightarrow>
              (\<exists>x. ask (extensions_answer (demo_md_script\<lparr>output_dir_answer := Answer (Some ''/out'')\<rparr>)) = Inr x)"
    by simp
  have a6: "ask_default (path_join ''/nowhere'' ''markdown_output'')
              (output_dir_answer (demo_md_script\<lparr>output_dir_answer := Answer (Some ''/out'')\<rparr>))
              = Inr ''/out''"
    by (simp add: ask_default_def ask_def)
  have a7: "makedirs_result (demo_md_env\<lparr>script_dir := ''/nowhere''\<rparr>) ''/out'' = None"
    by (simp add: demo_md_env_def)
  have k: "console_markup (demo_ppt_env\<lparr>cwd := ''C:/nowhere''\<rparr>) (NoPptxFound ''C:/nowhere'') = None"
    by (simp add: demo_ppt_env_def)
  let ?env = "demo_ppt_env\<lparr>cwd := ''C:/x[/b]'',
                console_markup := (\<lambda>m. if m = NoPptxFound ''C:/x[/b]''
                                        then Some (Exception ''MarkupError'') else None)\<rparr>"
  have dep': "missing_deps ?env = []"
    by (simp add: demo_ppt_env_def)
  have a1': "ask_default (cwd ?env) (directory_answer demo_ppt_script) = Inr ''C:/x[/b]''"
    by (simp add: ask_default_def ask_def demo_ppt_script_def)
  have p1': "ppt_path_state ?env ''C:/x[/b]'' = Missing"
    by (simp add: demo_ppt_env_def)
  have k': "console_markup ?env (NoPptxFound ''C:/x[/b]'') = Some (Exception ''MarkupError'')"
    by simp
  have first: "ppt_program (demo_ppt_env\<lparr>cwd := ''C:/nowhere''\<rparr>) demo_ppt_script
       = \<lparr>shown = [Say Title, Say (NoPptxFound ''C:/nowhere'')], status = ExitSuccess, stack_trace = False\<rparr>
     \<and> md_main (demo_md_env\<lparr>script_dir := ''/nowhere''\<rparr>)
         (demo_md_script\<lparr>output_dir_answer := Answer (Some ''/out'')\<rparr>)
       = (Print Banner # format_menu @ [Makedirs ''/out'', Listdir ''/nowhere''],
          Raised (Exception ''FileNotFoundError''))
     \<and> md_program (demo_md_env\<lparr>script_dir := ''/nowhere''\<rparr>)
         (demo_md_script\<lparr>output_dir_answer := Answer (Some ''/out'')\<rparr>)
       = \<lparr>shown = Print Banner # format_menu @ [Makedirs ''/out'', Listdir ''/nowhere''],
          status = ExitFailure, stack_trace = True\<rparr>"
    using k missing_directory_behaviour [OF st dep a1 p1 a2 p2 a3 a4 a5 a6 a7] by simp
  have second: "ppt_main ?env demo_ppt_script = ([Say Title], Raised (Exception ''MarkupError''))"
    using k' missing_directory_behaviour [OF st dep' a1' p1' a2 p2 a3 a4 a5 a6 a7] by blast
  have g: "get_ppt_files Missing = []"
    by (simp add: get_ppt_files_def glob_pptx_def)
  from p1 p2 g first second show ?thesis
    by (intro conjI) (simp_all only:)
qed

text \<open>
  Claim C5 as stated fails on the presentation tool: pointed at a path that is not a
  directory, the lister returns the empty list and the run ends normally with the
  message of an empty directory; no error condition is raised or shown.
\<close>

theorem missing_directory_counterexample:
  "get_ppt_files Missing = [] \<and> get_ppt_files NotADirectory = []
   \<and> ppt_program (demo_ppt_env\<lparr>ppt_path_state := (\<lambda>d. NotADirectory)\<rparr>) demo_ppt_script
       = \<lparr>shown = [Say Title, Say (NoPptxFound ''C:/work'')], status = ExitSuccess, stack_trace = False\<rparr>"
  by code_simp

end
